theory Spec2Isabelle
  imports Complex_Main "HOL-Library.AList"
begin

section \<open>Remote player interpolation (EntityLayer, src/engine/ObjectLayer.ts)\<close>

text \<open>
  JavaScript numbers are modelled as ideal reals: rounding of IEEE doubles, NaN and the
  infinities are outside this part of the model. \<open>performance.now()\<close> and \<open>Date.now()\<close>
  are read from the environment, so they are parameters of the operations that call them.
\<close>

definition INTERP_DELAY_MS :: real where
  "INTERP_DELAY_MS = 300"

definition INTERP_MAX_SNAPSHOTS :: nat where
  "INTERP_MAX_SNAPSHOTS = 6"

definition REMOTE_SNAP_DISTANCE_PX :: real where
  "REMOTE_SNAP_DISTANCE_PX = 96"

text \<open>interface RemoteSnapshot: a position snapshot received from the server.\<close>

record RemoteSnapshot =
  snap_x :: real
  snap_y :: real
  snap_vx :: real
  snap_vy :: real
  snap_direction :: string
  snap_animation :: string
  snap_time :: real

text \<open>PresenceData, as \<open>updatePresence\<close> reads it.\<close>

record PresenceData =
  p_profileId :: string
  p_name :: string
  p_spriteUrl :: string
  p_x :: real
  p_y :: real
  p_vx :: real
  p_vy :: real
  p_direction :: string
  p_animation :: string
  p_lastSeen :: real

text \<open>
  The two PixiJS objects the interpolation loop touches. Of an AnimatedSprite only the
  frames it shows, whether it plays and its current frame are kept; a Spritesheet is its
  \<open>animations\<close> table from animation key to frames.
\<close>

type_synonym Texture = string

record AnimatedSprite =
  textures :: "Texture list"
  playing :: bool
  currentFrame :: nat

type_synonym Spritesheet = "(string \<times> Texture list) list"

definition play :: "AnimatedSprite \<Rightarrow> AnimatedSprite" where
  "play s = s\<lparr>playing := True\<rparr>"

definition gotoAndStop :: "nat \<Rightarrow> AnimatedSprite \<Rightarrow> AnimatedSprite" where
  "gotoAndStop n s = s\<lparr>playing := False, currentFrame := n\<rparr>"

text \<open>An entry of \<open>EntityLayer.remotePlayers\<close>; the container is kept as its position.\<close>

record RemotePlayer =
  containerX :: real
  containerY :: real
  sprite :: "AnimatedSprite option"
  spritesheet :: "Spritesheet option"
  spriteUrl :: string
  label :: string
  snapshots :: "RemoteSnapshot list"
  renderX :: real
  renderY :: real
  direction :: string
  animation :: string
  directionHoldFrames :: nat

text \<open>
  \<open>remotePlayers\<close> is a JavaScript Map: an association list in insertion order, read with
  \<open>map_of\<close> and written with \<open>AList.update\<close> (which replaces in place or appends).
\<close>

type_synonym RemotePlayers = "(string \<times> RemotePlayer) list"

text \<open>
  DIR_ANIM: the sprite sheet row of each direction. It is a plain object literal indexed
  with any string a presence row carries, so an index that names a member of
  \<open>Object.prototype\<close> reads that inherited member, which is neither \<open>null\<close> nor
  \<open>undefined\<close>, and any other index reads \<open>undefined\<close>.
\<close>

definition Object_prototype_members :: "string list" where
  "Object_prototype_members =
     [''constructor'', ''hasOwnProperty'', ''isPrototypeOf'', ''propertyIsEnumerable'',
      ''toLocaleString'', ''toString'', ''valueOf'', ''__proto__'', ''__defineGetter__'',
      ''__defineSetter__'', ''__lookupGetter__'', ''__lookupSetter__'']"

datatype AnimLookup = OwnRow string | InheritedMember string | Undefined

definition DIR_ANIM :: "string \<Rightarrow> AnimLookup" where
  "DIR_ANIM dir =
     (if dir = ''down'' then OwnRow ''row0''
      else if dir = ''up'' then OwnRow ''row1''
      else if dir = ''right'' then OwnRow ''row2''
      else if dir = ''left'' then OwnRow ''row3''
      else if dir \<in> set Object_prototype_members then InheritedMember dir
      else Undefined)"

text \<open>
  \<open>spritesheet.animations[DIR_ANIM[dir] ?? "row0"]\<close>: the default \<open>row0\<close> replaces
  \<open>undefined\<close> only. An inherited member is a function or an object; as an index it is
  converted to its source text or to \<open>[object Object]\<close>, which names no animation of a
  sheet, so the frames read are \<open>undefined\<close>.
\<close>

definition animation_frames :: "Spritesheet \<Rightarrow> string \<Rightarrow> Texture list option" where
  "animation_frames sheet dir =
     (case DIR_ANIM dir of
        OwnRow animKey \<Rightarrow> map_of sheet animKey
      | Undefined \<Rightarrow> map_of sheet ''row0''
      | InheritedMember member \<Rightarrow> None)"

text \<open>applyRemoteDirection: apply a direction change to a remote player's sprite.\<close>

definition applyRemoteDirection :: "RemotePlayer \<Rightarrow> string \<Rightarrow> RemotePlayer" where
  "applyRemoteDirection remote dir =
     (case sprite remote of
        None \<Rightarrow> remote
      | Some spr \<Rightarrow>
          (case spritesheet remote of
             None \<Rightarrow> remote
           | Some sheet \<Rightarrow>
               (case animation_frames sheet dir of
                  None \<Rightarrow> remote
                | Some frames \<Rightarrow>
                    if length frames > 0 then
                      (let spr1 = spr\<lparr>textures := frames\<rparr> in
                       remote\<lparr>sprite := Some (if animation remote = ''walk'' then play spr1
                                               else gotoAndStop 0 spr1)\<rparr>)
                    else remote)))"

subsection \<open>EntityLayer.update: the loop over the remote players\<close>

text \<open>
  \<open>let i = snaps.length - 1; while (i > 0 && snaps[i].time > renderTime) i--;\<close>
  as a recursion on \<open>i\<close>.
\<close>

fun find_bracket :: "RemoteSnapshot list \<Rightarrow> real \<Rightarrow> nat \<Rightarrow> nat" where
  "find_bracket snaps renderTime 0 = 0"
| "find_bracket snaps renderTime (Suc i) =
     (if snap_time (snaps ! Suc i) > renderTime then find_bracket snaps renderTime i
      else Suc i)"

text \<open>
  The interpolation target \<open>(targetX, targetY, interpDir, interpAnim)\<close>. \<open>hold_at\<close> is the
  branch that holds at one snapshot, \<open>lerp_between\<close> the branch that interpolates.
\<close>

type_synonym InterpTarget = "real \<times> real \<times> string \<times> string"

definition hold_at :: "RemoteSnapshot \<Rightarrow> InterpTarget" where
  "hold_at a = (snap_x a, snap_y a, snap_direction a, snap_animation a)"

definition lerp_between :: "RemoteSnapshot \<Rightarrow> RemoteSnapshot \<Rightarrow> real \<Rightarrow> InterpTarget" where
  "lerp_between a b renderTime =
     (let t = max 0 (min 1 ((renderTime - snap_time a) / (snap_time b - snap_time a))) in
      (snap_x a + (snap_x b - snap_x a) * t,
       snap_y a + (snap_y b - snap_y a) * t,
       if t < 1 / 2 then snap_direction a else snap_direction b,
       if t < 1 / 2 then snap_animation a else snap_animation b))"

text \<open>
  \<open>None\<close> is the \<open>continue\<close> of an empty buffer. The snapshots of a buffer are distinct
  objects, so \<open>a === b\<close> holds exactly when both are read at the same index.
\<close>

definition interp_target :: "RemotePlayer \<Rightarrow> real \<Rightarrow> InterpTarget option" where
  "interp_target remote renderTime =
     (let snaps = snapshots remote in
      if length snaps \<ge> 2 then
        (let i = find_bracket snaps renderTime (length snaps - 1);
             j = min (i + 1) (length snaps - 1);
             a = snaps ! i;
             b = snaps ! j in
         if i = j \<or> snap_time a = snap_time b then Some (hold_at a)
         else Some (lerp_between a b renderTime))
      else if length snaps = 1 then Some (hold_at (snaps ! 0))
      else None)"

text \<open>Snap if teleport-level correction, otherwise move directly.\<close>

definition snap_or_move :: "real \<Rightarrow> real \<Rightarrow> RemotePlayer \<Rightarrow> RemotePlayer" where
  "snap_or_move targetX targetY remote =
     (let cdx = targetX - renderX remote;
          cdy = targetY - renderY remote;
          remote1 =
            (if cdx * cdx + cdy * cdy > REMOTE_SNAP_DISTANCE_PX * REMOTE_SNAP_DISTANCE_PX
             then remote\<lparr>renderX := targetX, renderY := targetY\<rparr>
             else remote\<lparr>renderX := targetX, renderY := targetY\<rparr>)
      in remote1\<lparr>containerX := renderX remote1, containerY := renderY remote1\<rparr>)"

text \<open>Debounce direction changes.\<close>

definition debounce_direction :: "string \<Rightarrow> RemotePlayer \<Rightarrow> RemotePlayer" where
  "debounce_direction interpDir remote =
     (if interpDir \<noteq> direction remote then
        (let remote1 = remote\<lparr>directionHoldFrames := directionHoldFrames remote + 1\<rparr> in
         if directionHoldFrames remote1 \<ge> 2 then
           (applyRemoteDirection remote1 interpDir)
             \<lparr>direction := interpDir, directionHoldFrames := 0\<rparr>
         else remote1)
      else remote\<lparr>directionHoldFrames := 0\<rparr>)"

text \<open>Smooth animation state: toggle walk and idle.\<close>

definition smooth_animation :: "string \<Rightarrow> RemotePlayer \<Rightarrow> RemotePlayer" where
  "smooth_animation interpAnim remote =
     (if interpAnim \<noteq> animation remote then
        (let remote1 =
           (case sprite remote of
              None \<Rightarrow> remote
            | Some spr \<Rightarrow>
                if interpAnim = ''walk'' \<and> \<not> playing spr then remote\<lparr>sprite := Some (play spr)\<rparr>
                else if interpAnim = ''idle'' \<and> playing spr
                  then remote\<lparr>sprite := Some (gotoAndStop 0 spr)\<rparr>
                else remote)
         in remote1\<lparr>animation := interpAnim\<rparr>)
      else remote)"

text \<open>The body of \<open>for (const [, remote] of this.remotePlayers)\<close>.\<close>

definition update_remote :: "real \<Rightarrow> RemotePlayer \<Rightarrow> RemotePlayer" where
  "update_remote renderTime remote =
     (case interp_target remote renderTime of
        None \<Rightarrow> remote
      | Some (targetX, targetY, interpDir, interpAnim) \<Rightarrow>
          smooth_animation interpAnim
            (debounce_direction interpDir (snap_or_move targetX targetY remote)))"

text \<open>
  The remote-player part of \<open>EntityLayer.update\<close>; \<open>now\<close> is \<open>performance.now()\<close>. The
  local player's movement, the NPCs and the camera do not touch \<open>remotePlayers\<close>.
\<close>

definition update :: "real \<Rightarrow> RemotePlayers \<Rightarrow> RemotePlayers" where
  "update now remotePlayers =
     (let renderTime = now - INTERP_DELAY_MS in
      map (\<lambda>(id, remote). (id, update_remote renderTime remote)) remotePlayers)"

subsection \<open>EntityLayer.updatePresence\<close>

text \<open>The snapshot pushed for a presence row; \<open>now\<close> is \<open>performance.now()\<close>.\<close>

definition new_snapshot :: "PresenceData \<Rightarrow> real \<Rightarrow> RemoteSnapshot" where
  "new_snapshot p now =
     \<lparr>snap_x = p_x p, snap_y = p_y p, snap_vx = p_vx p, snap_vy = p_vy p,
      snap_direction = p_direction p, snap_animation = p_animation p, snap_time = now\<rparr>"

text \<open>The entry created for a profile that is not tracked yet: an empty buffer, no sprite.\<close>

definition new_remote :: "PresenceData \<Rightarrow> RemotePlayer" where
  "new_remote p =
     \<lparr>containerX = p_x p, containerY = p_y p, sprite = None, spritesheet = None,
      spriteUrl = p_spriteUrl p, label = (if p_name p = [] then ''Player'' else p_name p),
      snapshots = [], renderX = p_x p, renderY = p_y p, direction = p_direction p,
      animation = p_animation p, directionHoldFrames = 0\<rparr>"

text \<open>\<open>while (remote.snapshots.length > INTERP_MAX_SNAPSHOTS) remote.snapshots.shift();\<close>\<close>

fun trim_snapshots :: "RemoteSnapshot list \<Rightarrow> RemoteSnapshot list" where
  "trim_snapshots [] = []"
| "trim_snapshots (s # snaps) =
     (if length (s # snaps) > INTERP_MAX_SNAPSHOTS then trim_snapshots snaps else s # snaps)"

text \<open>
  The body of \<open>for (const p of presenceList)\<close>, on the pair of \<open>activeIds\<close> and
  \<open>remotePlayers\<close>. The sprite sheet is loaded asynchronously: see \<open>spriteLoaded\<close>.
\<close>

definition presence_entry ::
    "string \<Rightarrow> real \<Rightarrow> string set \<times> RemotePlayers \<Rightarrow> PresenceData \<Rightarrow> string set \<times> RemotePlayers" where
  "presence_entry localProfileId now st p =
     (if p_profileId p = localProfileId then st
      else
        (let remote = (case map_of (snd st) (p_profileId p) of
                         None \<Rightarrow> new_remote p
                       | Some r \<Rightarrow> r);
             remote1 = remote\<lparr>snapshots :=
                         trim_snapshots (snapshots remote @ [new_snapshot p now])\<rparr>;
             remote2 = remote1\<lparr>label := (if p_name p = [] then ''Player'' else p_name p)\<rparr>
         in (insert (p_profileId p) (fst st), AList.update (p_profileId p) remote2 (snd st))))"

text \<open>
  \<open>updatePresence(presenceList, localProfileId)\<close>: the loop over the list, then the removal
  of every tracked player that is not in \<open>activeIds\<close>.
\<close>

definition updatePresence ::
    "PresenceData list \<Rightarrow> string \<Rightarrow> real \<Rightarrow> RemotePlayers \<Rightarrow> RemotePlayers" where
  "updatePresence presenceList localProfileId now remotePlayers =
     (let st = foldl (presence_entry localProfileId now) ({}, remotePlayers) presenceList
      in filter (\<lambda>(id, remote). id \<in> fst st) (snd st))"

text \<open>
  The completion of \<open>loadRemotePlayerSprite\<close> for a player that is still tracked: the
  loaded sheet's \<open>row0\<close> frames become the sprite, then the current direction is applied.
\<close>

definition spriteLoaded :: "Spritesheet \<Rightarrow> RemotePlayer \<Rightarrow> RemotePlayer" where
  "spriteLoaded sheet remote =
     (case map_of sheet ''row0'' of
        None \<Rightarrow> remote
      | Some downFrames \<Rightarrow>
          if length downFrames = 0 then remote
          else
            (let spr = \<lparr>textures = downFrames, playing = False, currentFrame = 0\<rparr>;
                 spr1 = (if animation remote = ''walk'' then play spr else gotoAndStop 0 spr);
                 remote1 = remote\<lparr>sprite := Some spr1, spritesheet := Some sheet\<rparr>
             in applyRemoteDirection remote1 (direction remote1)))"

text \<open>
  What the layer receives over time: a presence feed delivered at \<open>performance.now() = now\<close>,
  a frame of the game loop at \<open>now\<close>, or a sprite sheet that finished loading.
\<close>

datatype EntityEvent =
    PresenceFeed "PresenceData list" string real
  | Frame real
  | SpriteLoaded string Spritesheet

fun apply_event :: "RemotePlayers \<Rightarrow> EntityEvent \<Rightarrow> RemotePlayers" where
  "apply_event remotePlayers (PresenceFeed presenceList localProfileId now) =
     updatePresence presenceList localProfileId now remotePlayers"
| "apply_event remotePlayers (Frame now) = update now remotePlayers"
| "apply_event remotePlayers (SpriteLoaded profileId sheet) =
     (case map_of remotePlayers profileId of
        None \<Rightarrow> remotePlayers
      | Some remote \<Rightarrow> AList.update profileId (spriteLoaded sheet remote) remotePlayers)"

definition run_events :: "EntityEvent list \<Rightarrow> RemotePlayers" where
  "run_events events = foldl apply_event [] events"

text \<open>
  \<open>performance.now()\<close> is monotonic: the clock readings of consecutive feeds and frames
  never decrease.
\<close>

fun event_times :: "EntityEvent list \<Rightarrow> real list" where
  "event_times [] = []"
| "event_times (PresenceFeed presenceList localProfileId now # events) = now # event_times events"
| "event_times (Frame now # events) = now # event_times events"
| "event_times (SpriteLoaded profileId sheet # events) = event_times events"

definition clock_monotonic :: "EntityEvent list \<Rightarrow> bool" where
  "clock_monotonic events = sorted (event_times events)"

section \<open>Presence publishing (PresenceManager, src/engine/ObjectLayer.ts)\<close>

text \<open>
  Numbers are ideal reals in this section too: the publish gate compares the code's own
  expressions \<open>dx * dx + dy * dy\<close> and \<open>now - lastPresenceSentAt\<close> without the rounding of
  IEEE doubles, which can move the comparison within a unit in the last place of the
  squared threshold.

  The constants of \<open>config/multiplayer-config.ts\<close>, which is not among the sources: they
  are parameters of the model.
\<close>

record MultiplayerConfig =
  PRESENCE_INTERVAL_MS :: real
  PRESENCE_MOVE_THRESHOLD_PX :: real
  PRESENCE_STATIONARY_HEARTBEAT_MS :: real
  SAVE_POSITION_INTERVAL_MS :: real

record ProfileData =
  profile_id :: string
  profile_name :: string
  profile_spriteUrl :: string

text \<open>What \<open>hooks.getPlayerPosition()\<close> returns.\<close>

record PlayerPosition =
  pos_x :: real
  pos_y :: real
  pos_vx :: real
  pos_vy :: real
  pos_direction :: string

text \<open>
  What a call reads from outside the manager: the hooks, \<open>Date.now()\<close> and the
  \<open>isGuest\<close> callback.
\<close>

record Env =
  getCurrentMapName :: string
  getPlayerPosition :: PlayerPosition
  isPlayerMoving :: bool
  date_now :: real
  isGuest :: bool

text \<open>The arguments of the \<open>presence.update\<close> and \<open>profiles.savePosition\<close> mutations.\<close>

record PresenceUpdateArgs =
  u_profileId :: string
  u_mapName :: string
  u_x :: real
  u_y :: real
  u_vx :: real
  u_vy :: real
  u_direction :: string
  u_animation :: string
  u_spriteUrl :: string
  u_name :: string

record SavePositionArgs =
  s_id :: string
  s_mapName :: string
  s_x :: real
  s_y :: real
  s_direction :: string

datatype Mutation =
    PresenceUpdate PresenceUpdateArgs
  | PresenceRemove string
  | SavePosition SavePositionArgs

text \<open>
  The promise \<open>convex.mutation(...)\<close> returns settles as the network and the store decide:
  the client is a function from the mutation to that outcome. \<open>promise_catch\<close> is
  \<open>.catch(handler)\<close> with a handler that returns normally: the handler's effects, and a
  promise that is fulfilled either way.
\<close>

datatype Promise = Fulfilled | Rejected string

type_synonym ConvexClient = "Mutation \<Rightarrow> Promise"

text \<open>
  What a call does to the outside. \<open>UnhandledRejection\<close> stands for a rejected promise that
  no handler took: the only way a failed mutation could reach the caller or the user.
\<close>

datatype Effect =
    Mutate Mutation
  | ConsoleLog string
  | ConsoleWarn string string
  | UnhandledRejection string
  | SetInterval string real
  | ClearInterval string
  | Subscribe string
  | Unsubscribe
  | AddEventListener string
  | RemoveEventListener string
  | OnPresenceList "PresenceData list" string

definition promise_catch :: "Promise \<Rightarrow> (string \<Rightarrow> Effect list) \<Rightarrow> Promise \<times> Effect list" where
  "promise_catch p handler =
     (case p of Fulfilled \<Rightarrow> (Fulfilled, []) | Rejected err \<Rightarrow> (Fulfilled, handler err))"

text \<open>A promise nobody awaits: a rejection is reported, a fulfilment is dropped.\<close>

definition floating :: "Promise \<Rightarrow> Effect list" where
  "floating p = (case p of Fulfilled \<Rightarrow> [] | Rejected err \<Rightarrow> [UnhandledRejection err])"

text \<open>
  The fields of the manager. A timer field holds the period of the interval it was set to,
  the subscription and the unload handler are kept as installed or not.
\<close>

record PresenceManager =
  presenceTimer :: "real option"
  saveTimer :: "real option"
  presenceUnsub :: bool
  lastPresenceX :: real
  lastPresenceY :: real
  lastPresenceSentAt :: real
  unloadHandler :: bool

definition new_manager :: PresenceManager where
  "new_manager =
     \<lparr>presenceTimer = None, saveTimer = None, presenceUnsub = False, lastPresenceX = 0,
      lastPresenceY = 0, lastPresenceSentAt = 0, unloadHandler = False\<rparr>"

text \<open>The \<open>presence.update\<close> mutation \<open>publishPresence\<close> sends.\<close>

definition presence_update :: "ProfileData \<Rightarrow> Env \<Rightarrow> Mutation" where
  "presence_update profile env =
     (let pos = getPlayerPosition env in
      PresenceUpdate
        \<lparr>u_profileId = profile_id profile, u_mapName = getCurrentMapName env,
         u_x = pos_x pos, u_y = pos_y pos, u_vx = pos_vx pos, u_vy = pos_vy pos,
         u_direction = pos_direction pos,
         u_animation = (if isPlayerMoving env then ''walk'' else ''idle''),
         u_spriteUrl = profile_spriteUrl profile, u_name = profile_name profile\<rparr>)"

text \<open>publishPresence(convex, profileId, force).\<close>

definition publishPresence ::
    "MultiplayerConfig \<Rightarrow> ProfileData \<Rightarrow> Env \<Rightarrow> ConvexClient \<Rightarrow> bool \<Rightarrow> PresenceManager
     \<Rightarrow> PresenceManager \<times> Effect list" where
  "publishPresence cfg profile env convex force m =
     (let pos = getPlayerPosition env;
          dx = pos_x pos - lastPresenceX m;
          dy = pos_y pos - lastPresenceY m;
          moved = (dx * dx + dy * dy
                     \<ge> PRESENCE_MOVE_THRESHOLD_PX cfg * PRESENCE_MOVE_THRESHOLD_PX cfg);
          now = date_now env;
          heartbeatDue = (now - lastPresenceSentAt m \<ge> PRESENCE_STATIONARY_HEARTBEAT_MS cfg)
      in if \<not> force \<and> \<not> moved \<and> \<not> heartbeatDue then (m, [])
         else
           (let m1 = m\<lparr>lastPresenceX := pos_x pos, lastPresenceY := pos_y pos,
                        lastPresenceSentAt := now\<rparr>;
                mutation = presence_update profile env;
                caught = promise_catch (convex mutation)
                           (\<lambda>err. [ConsoleWarn ''Presence update failed:'' err])
            in (m1, Mutate mutation # snd caught @ floating (fst caught))))"

text \<open>
  The line \<open>start\<close> logs: the profile name and the map name in double quotes, the profile
  id in parentheses, and a marker for a guest. The characters between \<open>GUEST\<close> and
  \<open>read-only\<close> are given as the bytes they have in the source file.
\<close>

definition quoted :: "string \<Rightarrow> string" where
  "quoted s = CHR 0x22 # s @ [CHR 0x22]"

definition guest_marker :: string where
  "guest_marker =
     '' [GUEST '' @ [CHR 0xC3, CHR 0xA2, CHR 0xE2, CHR 0x82, CHR 0xAC, CHR 0xE2, CHR 0x80, CHR 0x9D]
       @ '' read-only]''"

definition start_log :: "ProfileData \<Rightarrow> Env \<Rightarrow> string" where
  "start_log profile env =
     ''[Presence] Starting for profile '' @ quoted (profile_name profile)
       @ '' ('' @ profile_id profile @ '') on map '' @ quoted (getCurrentMapName env)
       @ (if isGuest env then guest_marker else [])"

text \<open>
  start(). The callbacks it installs run later: the interval callbacks are
  \<open>presenceTimerFired\<close> and \<open>saveTimerFired\<close>, the unload handler is \<open>unloadFired\<close>, the
  subscription callbacks are \<open>feedDelivered\<close> and \<open>feedError\<close>. The fields are assigned
  without clearing what an earlier \<open>start\<close> left in them.
\<close>

definition start ::
    "MultiplayerConfig \<Rightarrow> ProfileData \<Rightarrow> Env \<Rightarrow> ConvexClient \<Rightarrow> PresenceManager
     \<Rightarrow> PresenceManager \<times> Effect list" where
  "start cfg profile env convex m =
     (let logged = [ConsoleLog (start_log profile env)];
          published =
            (if \<not> isGuest env then
               (let forced = publishPresence cfg profile env convex True m in
                (fst forced\<lparr>presenceTimer := Some (PRESENCE_INTERVAL_MS cfg)\<rparr>,
                 snd forced @ [SetInterval ''presence'' (PRESENCE_INTERVAL_MS cfg)]))
             else (m, []));
          m1 = fst published\<lparr>presenceUnsub := True\<rparr>;
          subscribed = [Subscribe (getCurrentMapName env)];
          saving =
            (if \<not> isGuest env then
               (m1\<lparr>saveTimer := Some (SAVE_POSITION_INTERVAL_MS cfg), unloadHandler := True\<rparr>,
                [SetInterval ''save'' (SAVE_POSITION_INTERVAL_MS cfg),
                 AddEventListener ''beforeunload'', AddEventListener ''pagehide''])
             else (m1, []))
      in (fst saving, logged @ snd published @ subscribed @ snd saving))"

text \<open>The callback of the presence interval: \<open>publishPresence(convex, profileId, false)\<close>.\<close>

definition presenceTimerFired ::
    "MultiplayerConfig \<Rightarrow> ProfileData \<Rightarrow> Env \<Rightarrow> ConvexClient \<Rightarrow> PresenceManager
     \<Rightarrow> PresenceManager \<times> Effect list" where
  "presenceTimerFired cfg profile env convex m = publishPresence cfg profile env convex False m"

text \<open>The callback of the save interval.\<close>

definition saveTimerFired ::
    "ProfileData \<Rightarrow> Env \<Rightarrow> ConvexClient \<Rightarrow> PresenceManager \<Rightarrow> PresenceManager \<times> Effect list" where
  "saveTimerFired profile env convex m =
     (let pos = getPlayerPosition env;
          mutation = SavePosition
            \<lparr>s_id = profile_id profile, s_mapName = getCurrentMapName env, s_x = pos_x pos,
             s_y = pos_y pos, s_direction = pos_direction pos\<rparr>;
          caught = promise_catch (convex mutation) (\<lambda>err. [ConsoleWarn ''Position save failed:'' err])
      in (m, Mutate mutation # snd caught @ floating (fst caught)))"

text \<open>The unload handler: \<open>c.mutation(api.presence.remove, { profileId }).catch(() => {})\<close>.\<close>

definition unloadFired ::
    "ProfileData \<Rightarrow> ConvexClient \<Rightarrow> PresenceManager \<Rightarrow> PresenceManager \<times> Effect list" where
  "unloadFired profile convex m =
     (let mutation = PresenceRemove (profile_id profile);
          caught = promise_catch (convex mutation) (\<lambda>err. [])
      in (m, Mutate mutation # snd caught @ floating (fst caught)))"

text \<open>The subscription callbacks. A missing \<open>vx\<close> or \<open>vy\<close> of a row is read as 0.\<close>

definition feedDelivered ::
    "ProfileData \<Rightarrow> PresenceData list \<Rightarrow> PresenceManager \<Rightarrow> PresenceManager \<times> Effect list" where
  "feedDelivered profile presenceList m = (m, [OnPresenceList presenceList (profile_id profile)])"

definition feedError :: "string \<Rightarrow> PresenceManager \<Rightarrow> PresenceManager \<times> Effect list" where
  "feedError err m = (m, [ConsoleWarn ''Presence subscription error:'' err])"

text \<open>stop().\<close>

definition stop ::
    "ProfileData \<Rightarrow> Env \<Rightarrow> ConvexClient \<Rightarrow> PresenceManager \<Rightarrow> PresenceManager \<times> Effect list" where
  "stop profile env convex m =
     (let e1 = (if presenceTimer m \<noteq> None then [ClearInterval ''presence''] else []);
          e2 = (if saveTimer m \<noteq> None then [ClearInterval ''save''] else []);
          e3 = (if presenceUnsub m then [Unsubscribe] else []);
          e4 = (if unloadHandler m
                then [RemoveEventListener ''beforeunload'', RemoveEventListener ''pagehide'']
                else []);
          m1 = m\<lparr>presenceTimer := None, saveTimer := None, presenceUnsub := False,
                  unloadHandler := False\<rparr>;
          e5 = (if \<not> isGuest env then
                  (let mutation = PresenceRemove (profile_id profile);
                       caught = promise_catch (convex mutation) (\<lambda>err. [])
                   in Mutate mutation # snd caught @ floating (fst caught))
                else [])
      in (m1, e1 @ e2 @ e3 @ e4 @ e5))"

text \<open>
  What the browser and the client hold for the manager, beside its fields: the intervals
  that are set and not cleared, the listeners that are added and not removed, the
  subscriptions that are open. \<open>stop\<close> clears only what the fields hold, and \<open>start\<close>
  overwrites the fields, so what an earlier \<open>start\<close> installed can outlive \<open>stop\<close>.
\<close>

record Page =
  presenceIntervals :: nat
  saveIntervals :: nat
  beforeunloadListeners :: nat
  pagehideListeners :: nat
  subscriptions :: nat

definition new_page :: Page where
  "new_page =
     \<lparr>presenceIntervals = 0, saveIntervals = 0, beforeunloadListeners = 0,
      pagehideListeners = 0, subscriptions = 0\<rparr>"

fun installed :: "Effect \<Rightarrow> Page \<Rightarrow> Page" where
  "installed (SetInterval name period) page =
     (if name = ''presence'' then page\<lparr>presenceIntervals := presenceIntervals page + 1\<rparr>
      else if name = ''save'' then page\<lparr>saveIntervals := saveIntervals page + 1\<rparr>
      else page)"
| "installed (ClearInterval name) page =
     (if name = ''presence'' then page\<lparr>presenceIntervals := presenceIntervals page - 1\<rparr>
      else if name = ''save'' then page\<lparr>saveIntervals := saveIntervals page - 1\<rparr>
      else page)"
| "installed (AddEventListener name) page =
     (if name = ''beforeunload''
        then page\<lparr>beforeunloadListeners := beforeunloadListeners page + 1\<rparr>
      else if name = ''pagehide'' then page\<lparr>pagehideListeners := pagehideListeners page + 1\<rparr>
      else page)"
| "installed (RemoveEventListener name) page =
     (if name = ''beforeunload''
        then page\<lparr>beforeunloadListeners := beforeunloadListeners page - 1\<rparr>
      else if name = ''pagehide'' then page\<lparr>pagehideListeners := pagehideListeners page - 1\<rparr>
      else page)"
| "installed (Subscribe mapName) page = page\<lparr>subscriptions := subscriptions page + 1\<rparr>"
| "installed Unsubscribe page = page\<lparr>subscriptions := subscriptions page - 1\<rparr>"
| "installed (Mutate mutation) page = page"
| "installed (ConsoleLog line) page = page"
| "installed (ConsoleWarn line err) page = page"
| "installed (UnhandledRejection err) page = page"
| "installed (OnPresenceList presenceList localProfileId) page = page"

definition installs :: "Effect list \<Rightarrow> Page \<Rightarrow> Page" where
  "installs effects page = fold installed effects page"

text \<open>A call or a callback of the manager, with what its effects leave installed.\<close>

definition called ::
    "Page \<Rightarrow> PresenceManager \<times> Effect list \<Rightarrow> (PresenceManager \<times> Page) \<times> Effect list" where
  "called page result = ((fst result, installs (snd result) page), snd result)"

text \<open>
  The life of a manager: calls of \<open>start\<close> and \<open>stop\<close>, and single runs of the callbacks
  the browser and the client hold. A callback runs while one is installed, whatever the
  fields of the manager say: an interval that was never set does not fire, and an interval
  that was set and never cleared goes on firing. \<open>PageUnload\<close> is one run of one unload
  handler.
\<close>

datatype ManagerEvent =
    Start
  | Stop
  | PresenceTimerFired
  | SaveTimerFired
  | PageUnload
  | FeedDelivered "PresenceData list"
  | FeedError string

fun step ::
    "MultiplayerConfig \<Rightarrow> ProfileData \<Rightarrow> PresenceManager \<times> Page
     \<Rightarrow> ManagerEvent \<times> Env \<times> ConvexClient \<Rightarrow> (PresenceManager \<times> Page) \<times> Effect list" where
  "step cfg profile (m, page) (Start, env, convex) = called page (start cfg profile env convex m)"
| "step cfg profile (m, page) (Stop, env, convex) = called page (stop profile env convex m)"
| "step cfg profile (m, page) (PresenceTimerFired, env, convex) =
     (if presenceIntervals page > 0 then called page (presenceTimerFired cfg profile env convex m)
      else ((m, page), []))"
| "step cfg profile (m, page) (SaveTimerFired, env, convex) =
     (if saveIntervals page > 0 then called page (saveTimerFired profile env convex m)
      else ((m, page), []))"
| "step cfg profile (m, page) (PageUnload, env, convex) =
     (if beforeunloadListeners page > 0 \<or> pagehideListeners page > 0
      then called page (unloadFired profile convex m)
      else ((m, page), []))"
| "step cfg profile (m, page) (FeedDelivered presenceList, env, convex) =
     (if subscriptions page > 0 then called page (feedDelivered profile presenceList m)
      else ((m, page), []))"
| "step cfg profile (m, page) (FeedError err, env, convex) =
     (if subscriptions page > 0 then called page (feedError err m) else ((m, page), []))"

fun run ::
    "MultiplayerConfig \<Rightarrow> ProfileData \<Rightarrow> PresenceManager \<times> Page
     \<Rightarrow> (ManagerEvent \<times> Env \<times> ConvexClient) list \<Rightarrow> (PresenceManager \<times> Page) \<times> Effect list" where
  "run cfg profile session [] = (session, [])"
| "run cfg profile session (ev # evs) =
     (let first = step cfg profile session ev;
          rest = run cfg profile (fst first) evs
      in (fst rest, snd first @ snd rest))"

text \<open>The mutations among the effects of a call, in order.\<close>

fun mutations :: "Effect list \<Rightarrow> Mutation list" where
  "mutations [] = []"
| "mutations (Mutate mu # es) = mu # mutations es"
| "mutations (e # es) = mutations es"

text \<open>The rejections among the effects of a call that no handler took.\<close>

fun unhandled_rejections :: "Effect list \<Rightarrow> string list" where
  "unhandled_rejections [] = []"
| "unhandled_rejections (UnhandledRejection err # es) = err # unhandled_rejections es"
| "unhandled_rejections (e # es) = unhandled_rejections es"

section \<open>Combat settings inputs (MapEditorPanel, src/editor/MapEditorPanel.ts)\<close>

text \<open>
  \<open>Number(input.value)\<close> is a JavaScript number that may be NaN or infinite; the editor
  tests it with \<open>Number.isFinite\<close>, so this part of the model keeps those values apart
  from the finite ones.
\<close>

datatype jsnum = Finite real | NaN | PosInfinity | NegInfinity

fun Number_isFinite :: "jsnum \<Rightarrow> bool" where
  "Number_isFinite (Finite v) = True"
| "Number_isFinite n = False"

text \<open>\<open>Math.round\<close> on a finite number: the nearest integer, a tie going up.\<close>

definition Math_round :: "real \<Rightarrow> real" where
  "Math_round v = of_int \<lfloor>v + 1 / 2\<rfloor>"

text \<open>
  The bounds of \<open>config/combat-config.ts\<close>, which is not among the sources: they are
  parameters of the model.
\<close>

record CombatConfig =
  COMBAT_ATTACK_RANGE_MIN_PX :: real
  COMBAT_ATTACK_RANGE_MAX_PX :: real
  COMBAT_PLAYER_ATTACK_COOLDOWN_MIN_MS :: real
  COMBAT_PLAYER_ATTACK_COOLDOWN_MAX_MS :: real
  COMBAT_NPC_HIT_COOLDOWN_MIN_MS :: real
  COMBAT_NPC_HIT_COOLDOWN_MAX_MS :: real
  COMBAT_DAMAGE_VARIANCE_MIN_PCT :: real
  COMBAT_DAMAGE_VARIANCE_MAX_PCT :: real

text \<open>\<open>mapData.combatSettings\<close>: every field is optional.\<close>

record CombatSettings =
  attackRangePx :: "real option"
  playerAttackCooldownMs :: "real option"
  npcHitCooldownMs :: "real option"
  damageVariancePct :: "real option"

text \<open>The fields of the map data the combat inputs read or write.\<close>

record MapData =
  combatEnabled :: bool
  combatSettings :: "CombatSettings option"

text \<open>\<open>mapData.combatSettings ?? {}\<close>\<close>

definition settings_or_empty :: "MapData \<Rightarrow> CombatSettings" where
  "settings_or_empty mapData =
     (case combatSettings mapData of
        None \<Rightarrow> \<lparr>attackRangePx = None, playerAttackCooldownMs = None,
                  npcHitCooldownMs = None, damageVariancePct = None\<rparr>
      | Some s \<Rightarrow> s)"

text \<open>
  The \<open>input\<close> listeners of the four combat inputs. \<open>mapData\<close> is what
  \<open>this.game?.mapRenderer.getMapData()\<close> returns, \<open>None\<close> when there is none, and \<open>n\<close> is
  \<open>Number(input.value)\<close>; the result is the map data after the listener has run.
\<close>

definition combatRangeInput :: "CombatConfig \<Rightarrow> jsnum \<Rightarrow> MapData option \<Rightarrow> MapData option" where
  "combatRangeInput cfg n mapData =
     (case mapData of
        None \<Rightarrow> None
      | Some md \<Rightarrow>
          (case n of
             Finite v \<Rightarrow>
               Some (md\<lparr>combatSettings := Some ((settings_or_empty md)
                 \<lparr>attackRangePx := Some (max (COMBAT_ATTACK_RANGE_MIN_PX cfg)
                     (min (COMBAT_ATTACK_RANGE_MAX_PX cfg) (Math_round v)))\<rparr>)\<rparr>)
           | _ \<Rightarrow> Some md))"

definition combatCooldownInput :: "CombatConfig \<Rightarrow> jsnum \<Rightarrow> MapData option \<Rightarrow> MapData option" where
  "combatCooldownInput cfg n mapData =
     (case mapData of
        None \<Rightarrow> None
      | Some md \<Rightarrow>
          (case n of
             Finite v \<Rightarrow>
               Some (md\<lparr>combatSettings := Some ((settings_or_empty md)
                 \<lparr>playerAttackCooldownMs := Some (max (COMBAT_PLAYER_ATTACK_COOLDOWN_MIN_MS cfg)
                     (min (COMBAT_PLAYER_ATTACK_COOLDOWN_MAX_MS cfg) (Math_round v)))\<rparr>)\<rparr>)
           | _ \<Rightarrow> Some md))"

definition combatNpcHitCdInput :: "CombatConfig \<Rightarrow> jsnum \<Rightarrow> MapData option \<Rightarrow> MapData option" where
  "combatNpcHitCdInput cfg n mapData =
     (case mapData of
        None \<Rightarrow> None
      | Some md \<Rightarrow>
          (case n of
             Finite v \<Rightarrow>
               Some (md\<lparr>combatSettings := Some ((settings_or_empty md)
                 \<lparr>npcHitCooldownMs := Some (max (COMBAT_NPC_HIT_COOLDOWN_MIN_MS cfg)
                     (min (COMBAT_NPC_HIT_COOLDOWN_MAX_MS cfg) (Math_round v)))\<rparr>)\<rparr>)
           | _ \<Rightarrow> Some md))"

definition combatVarianceInput :: "CombatConfig \<Rightarrow> jsnum \<Rightarrow> MapData option \<Rightarrow> MapData option" where
  "combatVarianceInput cfg n mapData =
     (case mapData of
        None \<Rightarrow> None
      | Some md \<Rightarrow>
          (case n of
             Finite v \<Rightarrow>
               Some (md\<lparr>combatSettings := Some ((settings_or_empty md)
                 \<lparr>damageVariancePct := Some (max (COMBAT_DAMAGE_VARIANCE_MIN_PCT cfg)
                     (min (COMBAT_DAMAGE_VARIANCE_MAX_PCT cfg) (Math_round v)))\<rparr>)\<rparr>)
           | _ \<Rightarrow> Some md))"

section \<open>Combat resolution (convex/mechanics/combat.ts)\<close>

text \<open>
  The server's combat mutations are not among the sources; the resolution of an attack on
  one NPC is modelled from the attack flow of the specification (section 4.4) and of
  docs/Combat.md.
\<close>

text \<open>The combat fields of an NpcState row, and the attacker's experience points.\<close>

record NpcCombat =
  currentHp :: real
  maxHp :: real
  lastHitAt :: "real option"
  defeatedAt :: "real option"
  respawnAt :: "real option"

record CombatWorld =
  npc :: NpcCombat
  playerXp :: real
  lootDrops :: nat

text \<open>The map's combat switch and settings, and the rewards of a defeat.\<close>

record CombatRules =
  rule_combatEnabled :: bool
  rule_attackRangePx :: real
  rule_npcHitCooldownMs :: real
  rule_damageVariancePct :: real
  rule_baseDamage :: real
  rule_respawnDelayMs :: real
  rule_xpReward :: real
  rule_dropsLoot :: bool

datatype AttackReason = CombatDisabled | OutOfRange | TargetDefeated | CooldownActive

record AttackResult =
  success :: bool
  reason :: "AttackReason option"
  damage :: "real option"
  defeated :: bool
  xpGained :: real

definition rejected :: "AttackReason \<Rightarrow> AttackResult" where
  "rejected why =
     \<lparr>success = False, reason = Some why, damage = None, defeated = False, xpGained = 0\<rparr>"

text \<open>
  Modelled from the spec: the resolution of one attack request against a target NPC
  (\<open>combat.attackNearestHostile\<close> once the target is chosen), whose code is not among the
  sources. \<open>distance\<close> is the distance from the requester to the target, \<open>now\<close> the time of the
  mutation, \<open>roll\<close> in \<open>[-1, 1]\<close> the random draw of the damage variance. The request is
  rejected if the map's \<open>combatEnabled\<close> is false, if the target is not within
  \<open>attackRangePx\<close>, if the target is already defeated, or if its \<open>lastHitAt\<close> is within
  \<open>npcHitCooldownMs\<close>; otherwise HP and \<open>lastHitAt\<close> are patched together, and on HP at or
  below 0 the defeat is recorded and the rewards are granted in the same resolution.
\<close>

definition resolveAttack ::
    "CombatRules \<Rightarrow> real \<Rightarrow> real \<Rightarrow> real \<Rightarrow> CombatWorld \<Rightarrow> AttackResult \<times> CombatWorld" where
  "resolveAttack rules distance now roll w =
     (if \<not> rule_combatEnabled rules then (rejected CombatDisabled, w)
      else if distance > rule_attackRangePx rules then (rejected OutOfRange, w)
      else if defeatedAt (npc w) \<noteq> None then (rejected TargetDefeated, w)
      else if (case lastHitAt (npc w) of
                 None \<Rightarrow> False
               | Some hit \<Rightarrow> now - hit < rule_npcHitCooldownMs rules)
        then (rejected CooldownActive, w)
      else
        (let dmg = rule_baseDamage rules * (1 + roll * rule_damageVariancePct rules / 100);
             hp = currentHp (npc w) - dmg;
             hitNpc = (npc w)\<lparr>currentHp := hp, lastHitAt := Some now\<rparr>
         in if hp \<le> 0 then
              (\<lparr>success = True, reason = None, damage = Some dmg, defeated = True,
                xpGained = rule_xpReward rules\<rparr>,
               w\<lparr>npc := hitNpc\<lparr>defeatedAt := Some now,
                                 respawnAt := Some (now + rule_respawnDelayMs rules)\<rparr>,
                 playerXp := playerXp w + rule_xpReward rules,
                 lootDrops := lootDrops w + (if rule_dropsLoot rules then 1 else 0)\<rparr>)
            else
              (\<lparr>success = True, reason = None, damage = Some dmg, defeated = False,
                xpGained = 0\<rparr>,
               w\<lparr>npc := hitNpc\<rparr>)))"

text \<open>
  A request that is retried or delivered again: further resolutions against the same
  target, each with its distance, its time and its own random draw.
\<close>

fun retries ::
    "CombatRules \<Rightarrow> (real \<times> real \<times> real) list \<Rightarrow> CombatWorld \<Rightarrow> AttackResult list \<times> CombatWorld" where
  "retries rules [] w = ([], w)"
| "retries rules ((distance, now, roll) # later) w =
     (let first = resolveAttack rules distance now roll w;
          rest = retries rules later (snd first)
      in (fst first # fst rest, snd rest))"

section \<open>Notions used to state the properties\<close>

subsection \<open>The update loop without the snap-distance check\<close>

text \<open>The same loop body with the snap-distance conditional removed.\<close>

definition move_directly :: "real \<Rightarrow> real \<Rightarrow> RemotePlayer \<Rightarrow> RemotePlayer" where
  "move_directly targetX targetY remote =
     remote\<lparr>renderX := targetX, renderY := targetY,
            containerX := targetX, containerY := targetY\<rparr>"

definition update_remote_no_snap :: "real \<Rightarrow> RemotePlayer \<Rightarrow> RemotePlayer" where
  "update_remote_no_snap renderTime remote =
     (case interp_target remote renderTime of
        None \<Rightarrow> remote
      | Some (targetX, targetY, interpDir, interpAnim) \<Rightarrow>
          smooth_animation interpAnim
            (debounce_direction interpDir (move_directly targetX targetY remote)))"

definition update_no_snap :: "real \<Rightarrow> RemotePlayers \<Rightarrow> RemotePlayers" where
  "update_no_snap now remotePlayers =
     (let renderTime = now - INTERP_DELAY_MS in
      map (\<lambda>(id, remote). (id, update_remote_no_snap renderTime remote)) remotePlayers)"

subsection \<open>Notions used to state the properties of the entity layer\<close>

text \<open>
  The position of a snapshot, of a rendered player and of an interpolation target, as
  points of the plane.
\<close>

definition snap_pos :: "RemoteSnapshot \<Rightarrow> real \<times> real" where
  "snap_pos s = (snap_x s, snap_y s)"

definition render_pos :: "RemotePlayer \<Rightarrow> real \<times> real" where
  "render_pos remote = (renderX remote, renderY remote)"

definition target_pos :: "InterpTarget \<Rightarrow> real \<times> real" where
  "target_pos tgt = (fst tgt, fst (snd tgt))"

text \<open>
  \<open>on_segment p a b\<close>: the point \<open>p\<close> lies on the straight segment
  from \<open>a\<close> to \<open>b\<close>.
\<close>

definition on_segment :: "real \<times> real \<Rightarrow> real \<times> real \<Rightarrow> real \<times> real \<Rightarrow> bool" where
  "on_segment p a b =
     (\<exists>t. 0 \<le> t \<and> t \<le> 1 \<and> fst p = fst a + (fst b - fst a) * t
          \<and> snd p = snd a + (snd b - snd a) * t)"

text \<open>
  The same player with the velocities of its snapshots replaced by arbitrary ones.
\<close>

definition set_velocities ::
    "(RemoteSnapshot \<Rightarrow> real) \<Rightarrow> (RemoteSnapshot \<Rightarrow> real) \<Rightarrow> RemotePlayer \<Rightarrow> RemotePlayer" where
  "set_velocities vx vy remote =
     remote\<lparr>snapshots := map (\<lambda>s. s\<lparr>snap_vx := vx s, snap_vy := vy s\<rparr>) (snapshots remote)\<rparr>"

text \<open>
  The entry of a listed player after one pass of the loop body of
  \<open>updatePresence\<close>: the new snapshot pushed, the buffer trimmed, the label
  set. \<open>old\<close> is the entry found in the map, if any.
\<close>

definition pushed :: "PresenceData \<Rightarrow> real \<Rightarrow> RemotePlayer option \<Rightarrow> RemotePlayer" where
  "pushed p now old =
     (let remote = (case old of None \<Rightarrow> new_remote p | Some r \<Rightarrow> r) in
      remote\<lparr>snapshots := trim_snapshots (snapshots remote @ [new_snapshot p now]),
             label := (if p_name p = [] then ''Player'' else p_name p)\<rparr>)"

text \<open>
  The profile ids of a presence list other than the local player's: the final
  \<open>activeIds\<close>.
\<close>

definition remote_ids :: "string \<Rightarrow> PresenceData list \<Rightarrow> string set" where
  "remote_ids localProfileId presenceList =
     {p_profileId p | p. p \<in> set presenceList \<and> p_profileId p \<noteq> localProfileId}"

text \<open>
  Invariants of the loop of \<open>updatePresence\<close>: the buffers of the players seen
  so far are within the bound; every buffer is ordered by time and holds no time after the
  clock reading.
\<close>

definition buffers_bounded :: "string set \<Rightarrow> RemotePlayers \<Rightarrow> bool" where
  "buffers_bounded ids remotePlayers =
     (\<forall>pid r. pid \<in> ids \<and> map_of remotePlayers pid = Some r
        \<longrightarrow> length (snapshots r) \<le> INTERP_MAX_SNAPSHOTS)"

definition buffers_ordered :: "real \<Rightarrow> RemotePlayers \<Rightarrow> bool" where
  "buffers_ordered bound remotePlayers =
     (\<forall>pid r. map_of remotePlayers pid = Some r \<longrightarrow>
        sorted (map snap_time (snapshots r)) \<and> (\<forall>s \<in> set (snapshots r). snap_time s \<le> bound))"

text \<open>
  The snapshot buffer of a profile id, empty when the player is not tracked.
\<close>

definition buffer_of :: "RemotePlayers \<Rightarrow> string \<Rightarrow> RemoteSnapshot list" where
  "buffer_of remotePlayers pid =
     (case map_of remotePlayers pid of None \<Rightarrow> [] | Some r \<Rightarrow> snapshots r)"

text \<open>
  Example data: a presence row, two feeds that move a player from (0, 0) to (10, 20) and
  the player they leave, the first feed alone, a full buffer, a sprite sheet, and feeds in
  which a player facing down turns left and, 10 ms later, right.
\<close>

definition example_row :: "string \<Rightarrow> real \<Rightarrow> real \<Rightarrow> string \<Rightarrow> PresenceData" where
  "example_row pid x y dir =
     \<lparr>p_profileId = pid, p_name = ''Ann'', p_spriteUrl = ''/sprites/ann.json'', p_x = x, p_y = y,
      p_vx = 120, p_vy = 0, p_direction = dir, p_animation = ''walk'', p_lastSeen = 0\<rparr>"

definition example_feeds :: "EntityEvent list" where
  "example_feeds =
     [PresenceFeed [example_row ''ann'' 0 0 ''down''] ''me'' 1000,
      PresenceFeed [example_row ''ann'' 10 20 ''down''] ''me'' 1100]"

definition example_remote :: RemotePlayer where
  "example_remote =
     \<lparr>containerX = 0, containerY = 0, sprite = None, spritesheet = None,
      spriteUrl = ''/sprites/ann.json'', label = ''Ann'',
      snapshots = [new_snapshot (example_row ''ann'' 0 0 ''down'') 1000,
                   new_snapshot (example_row ''ann'' 10 20 ''down'') 1100],
      renderX = 0, renderY = 0, direction = ''down'', animation = ''walk'',
      directionHoldFrames = 0\<rparr>"

definition example_first_feed :: "EntityEvent list" where
  "example_first_feed = [PresenceFeed [example_row ''ann'' 0 0 ''down''] ''me'' 1000]"

definition example_first_remote :: RemotePlayer where
  "example_first_remote =
     example_remote\<lparr>snapshots := [new_snapshot (example_row ''ann'' 0 0 ''down'') 1000]\<rparr>"

subsection \<open>Examples of the entity layer\<close>

definition full_buffer :: "RemoteSnapshot list" where
  "full_buffer =
     [new_snapshot (example_row ''ann'' 1 0 ''right'') 100,
      new_snapshot (example_row ''ann'' 2 0 ''right'') 200,
      new_snapshot (example_row ''ann'' 3 0 ''right'') 300,
      new_snapshot (example_row ''ann'' 4 0 ''right'') 400,
      new_snapshot (example_row ''ann'' 5 0 ''right'') 500,
      new_snapshot (example_row ''ann'' 6 0 ''right'') 600]"

definition example_sheet :: Spritesheet where
  "example_sheet =
     [(''row0'', [''down0'', ''down1'']), (''row1'', [''up0'', ''up1'']),
      (''row2'', [''right0'', ''right1'']), (''row3'', [''left0'', ''left1''])]"

definition flicker_events :: "EntityEvent list" where
  "flicker_events =
     [PresenceFeed [example_row ''ann'' 0 0 ''down''] ''me'' 1000,
      SpriteLoaded ''ann'' example_sheet,
      PresenceFeed [example_row ''ann'' 0 0 ''left''] ''me'' 1100,
      PresenceFeed [example_row ''ann'' 0 0 ''right''] ''me'' 1110]"

text \<open>
  The interpolated target direction of a player at a render time, and the frames its sprite
  shows.
\<close>

definition interp_direction :: "RemotePlayer \<Rightarrow> real \<Rightarrow> string option" where
  "interp_direction remote renderTime =
     map_option (\<lambda>(targetX, targetY, interpDir, interpAnim). interpDir)
       (interp_target remote renderTime)"

definition facing :: "RemotePlayer \<Rightarrow> Texture list option" where
  "facing remote = map_option textures (sprite remote)"

definition facing_of :: "RemotePlayers \<Rightarrow> string \<Rightarrow> Texture list option" where
  "facing_of remotePlayers pid =
     (case map_of remotePlayers pid of None \<Rightarrow> None | Some remote \<Rightarrow> facing remote)"

definition target_direction_of :: "RemotePlayers \<Rightarrow> string \<Rightarrow> real \<Rightarrow> string option" where
  "target_direction_of remotePlayers pid now =
     (case map_of remotePlayers pid of
        None \<Rightarrow> None
      | Some remote \<Rightarrow> interp_direction remote (now - INTERP_DELAY_MS))"

subsection \<open>Notions used to state the properties of the presence manager\<close>

text \<open>
  Example data: a profile, a configuration with a threshold of 4 px and a heartbeat of 5000
  ms, the readings of a call (position, time, guest or not), a manager that last published
  at a position and a time, the page after one start, a store that accepts every mutation
  and one that rejects every mutation.
\<close>

definition example_profile :: ProfileData where
  "example_profile = \<lparr>profile_id = ''p1'', profile_name = ''Ann'', profile_spriteUrl = ''/sprites/ann.json''\<rparr>"

definition example_config :: MultiplayerConfig where
  "example_config =
     \<lparr>PRESENCE_INTERVAL_MS = 200, PRESENCE_MOVE_THRESHOLD_PX = 4,
      PRESENCE_STATIONARY_HEARTBEAT_MS = 5000, SAVE_POSITION_INTERVAL_MS = 30000\<rparr>"

definition example_env :: "real \<Rightarrow> real \<Rightarrow> real \<Rightarrow> bool \<Rightarrow> Env" where
  "example_env x y now guest =
     \<lparr>getCurrentMapName = ''cozy-cabin'',
      getPlayerPosition = \<lparr>pos_x = x, pos_y = y, pos_vx = 0, pos_vy = 0, pos_direction = ''down''\<rparr>,
      isPlayerMoving = False, date_now = now, isGuest = guest\<rparr>"

definition published_at :: "real \<Rightarrow> real \<Rightarrow> real \<Rightarrow> PresenceManager" where
  "published_at x y sentAt =
     \<lparr>presenceTimer = Some 200, saveTimer = Some 30000, presenceUnsub = True, lastPresenceX = x,
      lastPresenceY = y, lastPresenceSentAt = sentAt, unloadHandler = True\<rparr>"

definition started_page :: Page where
  "started_page =
     \<lparr>presenceIntervals = 1, saveIntervals = 1, beforeunloadListeners = 1,
      pagehideListeners = 1, subscriptions = 1\<rparr>"

definition online :: ConvexClient where
  "online mutation = Fulfilled"

definition offline :: ConvexClient where
  "offline mutation = Rejected ''network unavailable''"

text \<open>
  The gate of an unforced publish: \<open>moved || heartbeatDue\<close>.
\<close>

definition publish_due :: "MultiplayerConfig \<Rightarrow> Env \<Rightarrow> PresenceManager \<Rightarrow> bool" where
  "publish_due cfg env m =
     ((pos_x (getPlayerPosition env) - lastPresenceX m) * (pos_x (getPlayerPosition env) - lastPresenceX m)
        + (pos_y (getPlayerPosition env) - lastPresenceY m) * (pos_y (getPlayerPosition env) - lastPresenceY m)
        \<ge> PRESENCE_MOVE_THRESHOLD_PX cfg * PRESENCE_MOVE_THRESHOLD_PX cfg
      \<or> date_now env - lastPresenceSentAt m \<ge> PRESENCE_STATIONARY_HEARTBEAT_MS cfg)"

text \<open>
  No interval and no unload handler is installed: neither in the fields of the manager nor
  in the page.
\<close>

definition guest_idle :: "PresenceManager \<times> Page \<Rightarrow> bool" where
  "guest_idle session =
     (presenceTimer (fst session) = None \<and> saveTimer (fst session) = None
      \<and> \<not> unloadHandler (fst session)
      \<and> presenceIntervals (snd session) = 0 \<and> saveIntervals (snd session) = 0
      \<and> beforeunloadListeners (snd session) = 0 \<and> pagehideListeners (snd session) = 0)"

text \<open>
  The gate of the next cycle after a publish at \<open>env\<close>: the move and the time are measured
  from the position and the time of that publish.
\<close>

definition due_since :: "MultiplayerConfig \<Rightarrow> Env \<Rightarrow> Env \<Rightarrow> bool" where
  "due_since cfg env env' =
     ((pos_x (getPlayerPosition env') - pos_x (getPlayerPosition env))
          * (pos_x (getPlayerPosition env') - pos_x (getPlayerPosition env))
        + (pos_y (getPlayerPosition env') - pos_y (getPlayerPosition env))
          * (pos_y (getPlayerPosition env') - pos_y (getPlayerPosition env))
        \<ge> PRESENCE_MOVE_THRESHOLD_PX cfg * PRESENCE_MOVE_THRESHOLD_PX cfg
      \<or> date_now env' - date_now env \<ge> PRESENCE_STATIONARY_HEARTBEAT_MS cfg)"

text \<open>
  Two histories of a manager with the same calls, callbacks and readings, whatever the
  store answers in each.
\<close>

definition same_calls ::
    "(ManagerEvent \<times> Env \<times> ConvexClient) list \<Rightarrow> (ManagerEvent \<times> Env \<times> ConvexClient) list \<Rightarrow> bool" where
  "same_calls evs evs' = (map (\<lambda>(ev, env, convex). (ev, env)) evs = map (\<lambda>(ev, env, convex). (ev, env)) evs')"

text \<open>
  A guest session: a start, then a firing of each interval and the unload event (which have
  nothing installed to run), a feed, and a stop.
\<close>

definition guest_session :: "(ManagerEvent \<times> Env \<times> ConvexClient) list" where
  "guest_session =
     [(Start, example_env 64 64 1000 True, online),
      (PresenceTimerFired, example_env 90 64 1200 True, online),
      (FeedDelivered [], example_env 90 64 1300 True, online),
      (SaveTimerFired, example_env 90 64 31000 True, online),
      (PageUnload, example_env 90 64 32000 True, online),
      (Stop, example_env 90 64 33000 True, online)]"

subsection \<open>Notions used to state the properties of the combat inputs\<close>

text \<open>
  A stored combat setting of the map data, if any.
\<close>

definition get_setting :: "(CombatSettings \<Rightarrow> real option) \<Rightarrow> MapData option \<Rightarrow> real option" where
  "get_setting field mapData =
     (case mapData of
        None \<Rightarrow> None
      | Some md \<Rightarrow> (case combatSettings md of None \<Rightarrow> None | Some s \<Rightarrow> field s))"

text \<open>
  A stored setting lies between two bounds; a stored setting is a whole number.
\<close>

definition in_range :: "real option \<Rightarrow> real \<Rightarrow> real \<Rightarrow> bool" where
  "in_range stored lo hi = (case stored of None \<Rightarrow> False | Some s \<Rightarrow> lo \<le> s \<and> s \<le> hi)"

definition is_whole :: "real option \<Rightarrow> bool" where
  "is_whole stored = (case stored of None \<Rightarrow> False | Some s \<Rightarrow> s = of_int \<lfloor>s\<rfloor>)"

text \<open>
  The configured bounds: each minimum is at most its maximum; every bound is a whole
  number.
\<close>

definition well_configured :: "CombatConfig \<Rightarrow> bool" where
  "well_configured cfg =
     (COMBAT_ATTACK_RANGE_MIN_PX cfg \<le> COMBAT_ATTACK_RANGE_MAX_PX cfg
      \<and> COMBAT_PLAYER_ATTACK_COOLDOWN_MIN_MS cfg \<le> COMBAT_PLAYER_ATTACK_COOLDOWN_MAX_MS cfg
      \<and> COMBAT_NPC_HIT_COOLDOWN_MIN_MS cfg \<le> COMBAT_NPC_HIT_COOLDOWN_MAX_MS cfg
      \<and> COMBAT_DAMAGE_VARIANCE_MIN_PCT cfg \<le> COMBAT_DAMAGE_VARIANCE_MAX_PCT cfg)"

definition whole_bounds :: "CombatConfig \<Rightarrow> bool" where
  "whole_bounds cfg =
     (is_whole (Some (COMBAT_ATTACK_RANGE_MIN_PX cfg)) \<and> is_whole (Some (COMBAT_ATTACK_RANGE_MAX_PX cfg))
      \<and> is_whole (Some (COMBAT_PLAYER_ATTACK_COOLDOWN_MIN_MS cfg))
      \<and> is_whole (Some (COMBAT_PLAYER_ATTACK_COOLDOWN_MAX_MS cfg))
      \<and> is_whole (Some (COMBAT_NPC_HIT_COOLDOWN_MIN_MS cfg))
      \<and> is_whole (Some (COMBAT_NPC_HIT_COOLDOWN_MAX_MS cfg))
      \<and> is_whole (Some (COMBAT_DAMAGE_VARIANCE_MIN_PCT cfg))
      \<and> is_whole (Some (COMBAT_DAMAGE_VARIANCE_MAX_PCT cfg)))"

text \<open>
  Example data: bounds of the four settings, and a map without combat settings.
\<close>

definition example_combat_config :: CombatConfig where
  "example_combat_config =
     \<lparr>COMBAT_ATTACK_RANGE_MIN_PX = 16, COMBAT_ATTACK_RANGE_MAX_PX = 256,
      COMBAT_PLAYER_ATTACK_COOLDOWN_MIN_MS = 100, COMBAT_PLAYER_ATTACK_COOLDOWN_MAX_MS = 5000,
      COMBAT_NPC_HIT_COOLDOWN_MIN_MS = 0, COMBAT_NPC_HIT_COOLDOWN_MAX_MS = 5000,
      COMBAT_DAMAGE_VARIANCE_MIN_PCT = 0, COMBAT_DAMAGE_VARIANCE_MAX_PCT = 100\<rparr>"

definition example_map :: MapData where
  "example_map = \<lparr>combatEnabled = True, combatSettings = None\<rparr>"

subsection \<open>Examples of combat\<close>

text \<open>
  Example data: rules with a cooldown of 500 ms and a base damage of 10 varied by 20
  percent, an NPC that has not been hit, the result of a lethal hit at 1000 and the world
  it leaves.
\<close>

definition example_rules :: CombatRules where
  "example_rules =
     \<lparr>rule_combatEnabled = True, rule_attackRangePx = 64, rule_npcHitCooldownMs = 500,
      rule_damageVariancePct = 20, rule_baseDamage = 10, rule_respawnDelayMs = 15000,
      rule_xpReward = 25, rule_dropsLoot = True\<rparr>"

definition example_world :: "real \<Rightarrow> CombatWorld" where
  "example_world hp =
     \<lparr>npc = \<lparr>currentHp = hp, maxHp = 30, lastHitAt = None, defeatedAt = None, respawnAt = None\<rparr>,
      playerXp = 0, lootDrops = 0\<rparr>"

definition example_defeat :: AttackResult where
  "example_defeat =
     \<lparr>success = True, reason = None, damage = Some 11, defeated = True, xpGained = 25\<rparr>"

definition example_defeated_world :: CombatWorld where
  "example_defeated_world =
     \<lparr>npc = \<lparr>currentHp = - 6, maxHp = 30, lastHitAt = Some 1000, defeatedAt = Some 1000,
             respawnAt = Some 16000\<rparr>,
      playerXp = 25, lootDrops = 1\<rparr>"

section \<open>Lemmas about the entity layer\<close>

lemma find_bracket_le: "find_bracket snaps rt n \<le> n"
  by (induction n) auto

lemma find_bracket_stop:
  "snap_time (snaps ! n) \<le> rt \<Longrightarrow> find_bracket snaps rt n = n"
  by (cases n) auto

lemma find_bracket_found:
  "k \<le> n \<Longrightarrow> snap_time (snaps ! k) \<le> rt \<Longrightarrow>
   (\<forall>j. k < j \<and> j \<le> n \<longrightarrow> rt < snap_time (snaps ! j)) \<Longrightarrow>
   find_bracket snaps rt n = k"
proof (induction n)
  case 0
  then show ?case by simp
next
  case (Suc n)
  show ?case
  proof (cases "k = Suc n")
    case True
    with Suc.prems show ?thesis by simp
  next
    case False
    with Suc.prems have "k \<le> n" by simp
    moreover have "rt < snap_time (snaps ! Suc n)" using Suc.prems False by auto
    ultimately show ?thesis using Suc by simp
  qed
qed

lemma find_bracket_map:
  assumes "\<And>s. snap_time (h s) = snap_time s" "n < length snaps"
  shows "find_bracket (map h snaps) rt n = find_bracket snaps rt n"
  using assms(2) by (induction n) (simp_all add: assms(1))

lemma applyRemoteDirection_render [simp]:
  "renderX (applyRemoteDirection r d) = renderX r"
  "renderY (applyRemoteDirection r d) = renderY r"
  by (simp_all add: applyRemoteDirection_def Let_def split: option.split)

text \<open>
  A direction that names an inherited member of the lookup object changes nothing, and a
  direction that names nothing at all falls back to \<open>row0\<close>.
\<close>

lemma applyRemoteDirection_inherited:
  "applyRemoteDirection remote ''toString'' = remote
   \<and> animation_frames sheet ''constructor'' = None
   \<and> animation_frames sheet ''north'' = map_of sheet ''row0''"
  by (simp add: applyRemoteDirection_def animation_frames_def DIR_ANIM_def
      Object_prototype_members_def split: option.split)

lemma debounce_direction_render [simp]:
  "renderX (debounce_direction d r) = renderX r"
  "renderY (debounce_direction d r) = renderY r"
  by (simp_all add: debounce_direction_def Let_def)

lemma smooth_animation_render [simp]:
  "renderX (smooth_animation a r) = renderX r"
  "renderY (smooth_animation a r) = renderY r"
  by (simp_all add: smooth_animation_def Let_def split: option.split)

lemma render_pos_update_remote:
  "interp_target r rt = Some tgt \<Longrightarrow> render_pos (update_remote rt r) = target_pos tgt"
  by (cases tgt) (simp add: update_remote_def snap_or_move_def Let_def render_pos_def target_pos_def)

lemma render_pos_update_remote_None:
  "interp_target r rt = None \<Longrightarrow> render_pos (update_remote rt r) = render_pos r"
  by (simp add: update_remote_def)

lemma sorted_times_nth:
  "sorted (map snap_time snaps) \<Longrightarrow> i \<le> j \<Longrightarrow> j < length snaps \<Longrightarrow>
   snap_time (snaps ! i) \<le> snap_time (snaps ! j)"
  using sorted_nth_mono [of "map snap_time snaps" i j] by simp

lemma target_pos_hold_at: "target_pos (hold_at a) = snap_pos a"
  by (simp add: target_pos_def hold_at_def snap_pos_def)

lemma target_pos_lerp_on_segment:
  "on_segment (target_pos (lerp_between a b rt)) (snap_pos a) (snap_pos b)"
  unfolding on_segment_def target_pos_def lerp_between_def Let_def snap_pos_def
  by (rule exI [of _ "max 0 (min 1 ((rt - snap_time a) / (snap_time b - snap_time a)))"]) simp

lemma target_pos_lerp_inside:
  assumes "snap_time a < rt" "rt < snap_time b"
  shows "target_pos (lerp_between a b rt) =
     (snap_x a + (snap_x b - snap_x a) * ((rt - snap_time a) / (snap_time b - snap_time a)),
      snap_y a + (snap_y b - snap_y a) * ((rt - snap_time a) / (snap_time b - snap_time a)))"
proof -
  have "0 < (rt - snap_time a) / (snap_time b - snap_time a)"
    "(rt - snap_time a) / (snap_time b - snap_time a) < 1" using assms by simp_all
  then have "max 0 (min 1 ((rt - snap_time a) / (snap_time b - snap_time a)))
      = (rt - snap_time a) / (snap_time b - snap_time a)" by (simp add: max_def min_def)
  then show ?thesis by (simp add: target_pos_def lerp_between_def Let_def)
qed

lemma on_segment_self: "on_segment a a b"
  unfolding on_segment_def by (rule exI [of _ 0]) simp

lemma lerp_between_velocities:
  "lerp_between (a\<lparr>snap_vx := va, snap_vy := wa\<rparr>) (b\<lparr>snap_vx := vb, snap_vy := wb\<rparr>) rt
     = lerp_between a b rt"
  by (simp add: lerp_between_def Let_def)

lemma hold_at_velocities: "hold_at (a\<lparr>snap_vx := va, snap_vy := wa\<rparr>) = hold_at a"
  by (simp add: hold_at_def)

lemma interp_target_bracketed:
  assumes srt: "sorted (map snap_time (snapshots r))"
    and k: "Suc k < length (snapshots r)"
    and lo: "snap_time (snapshots r ! k) < rt"
    and hi: "rt < snap_time (snapshots r ! Suc k)"
  shows "interp_target r rt = Some (lerp_between (snapshots r ! k) (snapshots r ! Suc k) rt)"
proof -
  let ?snaps = "snapshots r"
  have "\<forall>j. k < j \<and> j \<le> length ?snaps - 1 \<longrightarrow> rt < snap_time (?snaps ! j)"
  proof (intro allI impI)
    fix j assume j: "k < j \<and> j \<le> length ?snaps - 1"
    then have "Suc k \<le> j" "j < length ?snaps" using k by auto
    then have "snap_time (?snaps ! Suc k) \<le> snap_time (?snaps ! j)"
      by (rule sorted_times_nth [OF srt])
    with hi show "rt < snap_time (?snaps ! j)" by simp
  qed
  then have i: "find_bracket ?snaps rt (length ?snaps - 1) = k"
    using find_bracket_found [of k "length ?snaps - 1" ?snaps rt] k lo by simp
  have j: "min (k + 1) (length ?snaps - 1) = Suc k" using k by simp
  have ne: "snap_time (?snaps ! k) \<noteq> snap_time (?snaps ! Suc k)" using lo hi by simp
  from k have len: "2 \<le> length ?snaps" by simp
  show ?thesis
    unfolding interp_target_def Let_def i j using ne len by simp
qed

lemma interp_target_latest:
  assumes "snapshots r \<noteq> []" "snap_time (last (snapshots r)) \<le> rt"
  shows "interp_target r rt = Some (hold_at (last (snapshots r)))"
proof -
  let ?snaps = "snapshots r"
  have l: "last ?snaps = ?snaps ! (length ?snaps - 1)" using assms(1) by (simp add: last_conv_nth)
  have i: "find_bracket ?snaps rt (length ?snaps - 1) = length ?snaps - 1"
    using assms(2) l by (intro find_bracket_stop) simp
  show ?thesis
  proof (cases "2 \<le> length ?snaps")
    case True
    then show ?thesis unfolding interp_target_def Let_def i using l by simp
  next
    case False
    moreover have "length ?snaps \<noteq> 0" using assms(1) by simp
    ultimately have "length ?snaps = 1" by arith
    then show ?thesis unfolding interp_target_def Let_def using l by simp
  qed
qed

lemma interp_target_single:
  assumes "length (snapshots r) = 1"
  shows "interp_target r rt = Some (hold_at (snapshots r ! 0))"
  using assms by (simp add: interp_target_def Let_def)

lemma interp_target_consecutive:
  assumes "snapshots r \<noteq> []"
  shows "\<exists>i j tgt. interp_target r rt = Some tgt \<and> i < length (snapshots r)
     \<and> j < length (snapshots r) \<and> (j = i \<or> j = Suc i)
     \<and> on_segment (target_pos tgt) (snap_pos (snapshots r ! i)) (snap_pos (snapshots r ! j))"
proof (cases "2 \<le> length (snapshots r)")
  case True
  let ?snaps = "snapshots r"
  define i where "i = find_bracket ?snaps rt (length ?snaps - 1)"
  define j where "j = min (i + 1) (length ?snaps - 1)"
  have i: "i < length ?snaps"
    using find_bracket_le [of ?snaps rt "length ?snaps - 1"] True by (simp add: i_def)
  have j: "j < length ?snaps" "j = i \<or> j = Suc i" using True i by (auto simp: min_def j_def)
  have tgt: "interp_target r rt =
      (if i = j \<or> snap_time (?snaps ! i) = snap_time (?snaps ! j) then Some (hold_at (?snaps ! i))
       else Some (lerp_between (?snaps ! i) (?snaps ! j) rt))"
    unfolding interp_target_def Let_def i_def j_def using True by simp
  show ?thesis
  proof (cases "i = j \<or> snap_time (?snaps ! i) = snap_time (?snaps ! j)")
    case hold: True
    then have "interp_target r rt = Some (hold_at (?snaps ! i))" using tgt by simp
    moreover have "on_segment (target_pos (hold_at (?snaps ! i)))
        (snap_pos (?snaps ! i)) (snap_pos (?snaps ! j))"
      by (simp add: target_pos_hold_at on_segment_self)
    ultimately show ?thesis using i j by blast
  next
    case lerp: False
    then have "interp_target r rt = Some (lerp_between (?snaps ! i) (?snaps ! j) rt)"
      using tgt by simp
    then show ?thesis using i j target_pos_lerp_on_segment by blast
  qed
next
  case False
  moreover have "length (snapshots r) \<noteq> 0" using assms by simp
  ultimately have len: "length (snapshots r) = 1" by arith
  have "on_segment (target_pos (hold_at (snapshots r ! 0)))
      (snap_pos (snapshots r ! 0)) (snap_pos (snapshots r ! 0))"
    by (simp add: target_pos_hold_at on_segment_self)
  moreover have "(0::nat) < length (snapshots r)" using len by simp
  ultimately show ?thesis using interp_target_single [OF len, of rt] by blast
qed

lemma interp_target_set_velocities:
  "interp_target (set_velocities vx vy r) rt = interp_target r rt"
proof -
  let ?h = "\<lambda>s. s\<lparr>snap_vx := vx s, snap_vy := vy s\<rparr>"
  let ?snaps = "snapshots r"
  have snaps': "snapshots (set_velocities vx vy r) = map ?h ?snaps"
    by (simp add: set_velocities_def)
  show ?thesis
  proof (cases "2 \<le> length ?snaps")
    case True
    define i where "i = find_bracket ?snaps rt (length ?snaps - 1)"
    define j where "j = min (i + 1) (length ?snaps - 1)"
    have fb: "find_bracket (map ?h ?snaps) rt (length ?snaps - 1) = i"
      unfolding i_def using True by (intro find_bracket_map) simp_all
    have i: "i < length ?snaps"
      using find_bracket_le [of ?snaps rt "length ?snaps - 1"] True by (simp add: i_def)
    have j: "j < length ?snaps" using True by (simp add: j_def)
    have nth_i: "map ?h ?snaps ! i = ?h (?snaps ! i)" using i by (rule nth_map)
    have nth_j: "map ?h ?snaps ! j = ?h (?snaps ! j)" using j by (rule nth_map)
    have l: "interp_target (set_velocities vx vy r) rt =
      (if i = j \<or> snap_time (?h (?snaps ! i)) = snap_time (?h (?snaps ! j))
       then Some (hold_at (?h (?snaps ! i)))
       else Some (lerp_between (?h (?snaps ! i)) (?h (?snaps ! j)) rt))"
      unfolding interp_target_def Let_def snaps' length_map fb
      using True nth_i nth_j by (simp only: j_def [symmetric] if_True)
    have r: "interp_target r rt =
      (if i = j \<or> snap_time (?snaps ! i) = snap_time (?snaps ! j) then Some (hold_at (?snaps ! i))
       else Some (lerp_between (?snaps ! i) (?snaps ! j) rt))"
      unfolding interp_target_def Let_def using True by (simp only: i_def j_def if_True)
    show ?thesis unfolding l r by (simp add: hold_at_velocities lerp_between_velocities)
  next
    case False
    then have "length ?snaps = 0 \<or> length ?snaps = 1" by arith
    then show ?thesis
    proof
      assume "length ?snaps = 0"
      then show ?thesis unfolding interp_target_def Let_def snaps' by simp
    next
      assume one: "length ?snaps = 1"
      then have "map ?h ?snaps ! 0 = ?h (?snaps ! 0)" by (intro nth_map) simp
      then show ?thesis unfolding interp_target_def Let_def snaps' length_map using one
        by (simp add: hold_at_velocities)
    qed
  qed
qed

lemma render_pos_set_velocities:
  "render_pos (update_remote rt (set_velocities vx vy r)) = render_pos (update_remote rt r)"
proof (cases "interp_target r rt")
  case None
  then have "interp_target (set_velocities vx vy r) rt = None"
    by (simp add: interp_target_set_velocities)
  then have "render_pos (update_remote rt (set_velocities vx vy r))
      = render_pos (set_velocities vx vy r)" by (rule render_pos_update_remote_None)
  also have "\<dots> = render_pos r" by (simp add: render_pos_def set_velocities_def)
  also have "\<dots> = render_pos (update_remote rt r)"
    using None by (simp add: render_pos_update_remote_None)
  finally show ?thesis .
next
  case (Some tgt)
  then have "interp_target (set_velocities vx vy r) rt = Some tgt"
    by (simp add: interp_target_set_velocities)
  then show ?thesis using Some by (simp add: render_pos_update_remote)
qed

lemma trim_snapshots_drop:
  "trim_snapshots snaps = drop (length snaps - INTERP_MAX_SNAPSHOTS) snaps"
proof (induction snaps)
  case Nil
  then show ?case by simp
next
  case (Cons s snaps)
  show ?case
  proof (cases "length (s # snaps) > INTERP_MAX_SNAPSHOTS")
    case True
    then have "length (s # snaps) - INTERP_MAX_SNAPSHOTS = Suc (length snaps - INTERP_MAX_SNAPSHOTS)"
      by simp
    with True Cons show ?thesis by simp
  next
    case False
    then show ?thesis by simp
  qed
qed

lemma trim_snapshots_length: "length (trim_snapshots snaps) \<le> INTERP_MAX_SNAPSHOTS"
  by (simp add: trim_snapshots_drop)

lemma presence_entry_local:
  "p_profileId p = lid \<Longrightarrow> presence_entry lid now st p = st"
  by (simp add: presence_entry_def)

lemma presence_entry_remote:
  "p_profileId p \<noteq> lid \<Longrightarrow>
   presence_entry lid now st p =
     (insert (p_profileId p) (fst st),
      AList.update (p_profileId p) (pushed p now (map_of (snd st) (p_profileId p))) (snd st))"
  by (simp add: presence_entry_def pushed_def Let_def)

lemma presence_entry_map_of:
  "map_of (snd (presence_entry lid now st p)) =
     (if p_profileId p = lid then map_of (snd st)
      else (map_of (snd st))(p_profileId p \<mapsto> pushed p now (map_of (snd st) (p_profileId p))))"
  by (simp add: presence_entry_local presence_entry_remote update_conv')

lemma presence_entry_active:
  "fst (presence_entry lid now st p) =
     (if p_profileId p = lid then fst st else insert (p_profileId p) (fst st))"
  by (simp add: presence_entry_local presence_entry_remote)

lemma remote_ids_Nil [simp]: "remote_ids lid [] = {}"
  by (simp add: remote_ids_def)

lemma remote_ids_Cons:
  "remote_ids lid (p # ps) =
     (if p_profileId p = lid then remote_ids lid ps else insert (p_profileId p) (remote_ids lid ps))"
  by (auto simp: remote_ids_def)

lemma foldl_presence_active:
  "fst (foldl (presence_entry lid now) st ps) = fst st \<union> remote_ids lid ps"
  by (induction ps arbitrary: st) (auto simp: presence_entry_active remote_ids_Cons)

lemma foldl_presence_keys:
  "fst ` set (snd (foldl (presence_entry lid now) st ps)) = fst ` set (snd st) \<union> remote_ids lid ps"
proof -
  have "dom (map_of (snd (foldl (presence_entry lid now) st ps)))
      = dom (map_of (snd st)) \<union> remote_ids lid ps"
    by (induction ps arbitrary: st) (auto simp: presence_entry_map_of remote_ids_Cons)
  then show ?thesis by (simp add: dom_map_of_conv_image_fst)
qed

lemma pushed_length: "length (snapshots (pushed p now old)) \<le> INTERP_MAX_SNAPSHOTS"
  by (simp add: pushed_def Let_def trim_snapshots_length)

lemma presence_entry_bounded:
  "buffers_bounded (fst st) (snd st) \<Longrightarrow>
   buffers_bounded (fst (presence_entry lid now st p)) (snd (presence_entry lid now st p))"
  unfolding buffers_bounded_def
  by (auto simp: presence_entry_map_of presence_entry_active pushed_length split: if_splits)

lemma foldl_presence_bounded:
  "buffers_bounded (fst st) (snd st) \<Longrightarrow>
   buffers_bounded (fst (foldl (presence_entry lid now) st ps))
     (snd (foldl (presence_entry lid now) st ps))"
  by (induction ps arbitrary: st) (simp_all add: presence_entry_bounded)

lemma map_of_filter_keys:
  "map_of (filter (\<lambda>(k, v). k \<in> A) xs) k = (if k \<in> A then map_of xs k else None)"
  by (induction xs) auto

lemma updatePresence_map_of:
  "map_of (updatePresence ps lid now rps) pid =
     (if pid \<in> remote_ids lid ps
      then map_of (snd (foldl (presence_entry lid now) ({}, rps) ps)) pid else None)"
  by (simp add: updatePresence_def Let_def map_of_filter_keys foldl_presence_active)

lemma updatePresence_keys:
  "fst ` set (updatePresence ps lid now rps) = remote_ids lid ps"
proof -
  let ?st = "foldl (presence_entry lid now) ({}, rps) ps"
  have "fst ` set (filter (\<lambda>(k, v). k \<in> fst ?st) (snd ?st)) = fst ` set (snd ?st) \<inter> fst ?st"
    by force
  then show ?thesis
    by (auto simp: updatePresence_def Let_def foldl_presence_keys foldl_presence_active)
qed

lemma updatePresence_bounded:
  assumes "map_of (updatePresence ps lid now rps) pid = Some r"
  shows "length (snapshots r) \<le> INTERP_MAX_SNAPSHOTS"
proof -
  let ?st = "foldl (presence_entry lid now) ({}, rps) ps"
  have "buffers_bounded (fst ?st) (snd ?st)"
    by (rule foldl_presence_bounded) (simp add: buffers_bounded_def)
  moreover from assms have "pid \<in> fst ?st" "map_of (snd ?st) pid = Some r"
    by (simp_all add: updatePresence_map_of foldl_presence_active split: if_splits)
  ultimately show ?thesis unfolding buffers_bounded_def by blast
qed

lemma foldl_presence_other:
  "pid \<notin> remote_ids lid ps \<Longrightarrow>
   map_of (snd (foldl (presence_entry lid now) st ps)) pid = map_of (snd st) pid"
  by (induction ps arbitrary: st) (auto simp: presence_entry_map_of remote_ids_Cons split: if_splits)

lemma updatePresence_once:
  assumes "ps = pre @ p # post" "p_profileId p \<noteq> lid"
    "p_profileId p \<notin> remote_ids lid pre" "p_profileId p \<notin> remote_ids lid post"
  shows "map_of (updatePresence ps lid now rps) (p_profileId p)
     = Some (pushed p now (map_of rps (p_profileId p)))"
proof -
  let ?f = "presence_entry lid now"
  let ?st1 = "foldl ?f ({}, rps) pre"
  have "p_profileId p \<in> remote_ids lid ps" using assms(1,2) by (auto simp: remote_ids_def)
  then have "map_of (updatePresence ps lid now rps) (p_profileId p)
      = map_of (snd (foldl ?f (?f ?st1 p) post)) (p_profileId p)"
    by (simp add: updatePresence_map_of assms(1))
  also have "\<dots> = map_of (snd (?f ?st1 p)) (p_profileId p)"
    using assms(4) by (rule foldl_presence_other)
  also have "\<dots> = Some (pushed p now (map_of (snd ?st1) (p_profileId p)))"
    using assms(2) by (simp add: presence_entry_map_of)
  also have "map_of (snd ?st1) (p_profileId p) = map_of rps (p_profileId p)"
    using foldl_presence_other [OF assms(3), of now "({}, rps)"] by simp
  finally show ?thesis .
qed

lemma buffers_ordered_mono:
  "buffers_ordered b rps \<Longrightarrow> b \<le> b' \<Longrightarrow> buffers_ordered b' rps"
  unfolding buffers_ordered_def by fastforce

lemma applyRemoteDirection_snapshots [simp]:
  "snapshots (applyRemoteDirection r d) = snapshots r"
  by (simp add: applyRemoteDirection_def Let_def split: option.split)

lemma update_remote_snapshots [simp]: "snapshots (update_remote rt r) = snapshots r"
  by (simp add: update_remote_def snap_or_move_def debounce_direction_def smooth_animation_def
      Let_def split: option.split prod.split)

lemma spriteLoaded_snapshots [simp]: "snapshots (spriteLoaded sheet r) = snapshots r"
  by (simp add: spriteLoaded_def Let_def split: option.split)

lemma map_of_update:
  "map_of (update now rps) pid = map_option (update_remote (now - INTERP_DELAY_MS)) (map_of rps pid)"
  by (simp add: update_def Let_def map_of_map)

lemma pushed_snapshots:
  "snapshots (pushed p now old) =
     trim_snapshots ((case old of None \<Rightarrow> [] | Some r \<Rightarrow> snapshots r) @ [new_snapshot p now])"
  by (simp add: pushed_def Let_def new_remote_def split: option.split)

lemma pushed_ordered:
  assumes "\<And>r. old = Some r \<Longrightarrow>
      sorted (map snap_time (snapshots r)) \<and> (\<forall>s \<in> set (snapshots r). snap_time s \<le> now)"
  shows "sorted (map snap_time (snapshots (pushed p now old)))
     \<and> (\<forall>s \<in> set (snapshots (pushed p now old)). snap_time s \<le> now)"
proof -
  let ?old = "case old of None \<Rightarrow> [] | Some r \<Rightarrow> snapshots r"
  have old: "sorted (map snap_time ?old)" "\<forall>s \<in> set ?old. snap_time s \<le> now"
    using assms by (cases old; simp)+
  let ?all = "?old @ [new_snapshot p now]"
  have "sorted (map snap_time ?all)" using old by (simp add: sorted_append new_snapshot_def)
  then have "sorted (drop (length ?all - INTERP_MAX_SNAPSHOTS) (map snap_time ?all))"
    by (rule sorted_wrt_drop)
  then have 1: "sorted (map snap_time (trim_snapshots ?all))"
    by (simp only: trim_snapshots_drop drop_map)
  have "\<forall>s \<in> set ?all. snap_time s \<le> now" using old by (simp add: new_snapshot_def)
  then have 2: "\<forall>s \<in> set (trim_snapshots ?all). snap_time s \<le> now"
    unfolding trim_snapshots_drop using in_set_dropD by fast
  from 1 2 show ?thesis by (simp add: pushed_snapshots)
qed

lemma presence_entry_ordered:
  "buffers_ordered now (snd st) \<Longrightarrow> buffers_ordered now (snd (presence_entry lid now st p))"
  unfolding buffers_ordered_def
  using pushed_ordered [of "map_of (snd st) (p_profileId p)" now p]
  by (auto simp: presence_entry_map_of split: if_splits)

lemma foldl_presence_ordered:
  "buffers_ordered now (snd st) \<Longrightarrow>
   buffers_ordered now (snd (foldl (presence_entry lid now) st ps))"
  by (induction ps arbitrary: st) (simp_all add: presence_entry_ordered)

lemma updatePresence_ordered:
  assumes "buffers_ordered now rps"
  shows "buffers_ordered now (updatePresence ps lid now rps)"
proof -
  have "buffers_ordered now (snd (foldl (presence_entry lid now) ({}, rps) ps))"
    using assms by (intro foldl_presence_ordered) simp
  then show ?thesis
    unfolding buffers_ordered_def by (simp add: updatePresence_map_of split: if_splits)
qed

lemma update_ordered: "buffers_ordered b rps \<Longrightarrow> buffers_ordered b (update now rps)"
  unfolding buffers_ordered_def by (auto simp: map_of_update)

lemma spriteLoaded_ordered:
  "buffers_ordered b rps \<Longrightarrow> buffers_ordered b (apply_event rps (SpriteLoaded pid sheet))"
  unfolding buffers_ordered_def by (auto simp: update_conv' split: option.splits if_splits)

lemma event_times_append: "event_times (evs @ evs') = event_times evs @ event_times evs'"
  by (induction evs rule: event_times.induct) simp_all

lemma run_events_snoc: "run_events (evs @ [e]) = apply_event (run_events evs) e"
  by (simp add: run_events_def)

lemma run_events_ordered:
  "clock_monotonic evs \<Longrightarrow> (\<forall>t \<in> set (event_times evs). t \<le> b) \<Longrightarrow>
   buffers_ordered b (run_events evs)"
proof (induction evs arbitrary: b rule: rev_induct)
  case Nil
  then show ?case by (simp add: run_events_def buffers_ordered_def)
next
  case (snoc e evs)
  from snoc.prems(1) have mono: "clock_monotonic evs"
    by (simp add: clock_monotonic_def event_times_append sorted_append)
  from snoc.prems(2) have le: "\<forall>t \<in> set (event_times evs). t \<le> b"
    by (simp add: event_times_append)
  show ?case
  proof (cases e)
    case (PresenceFeed ps lid now)
    have "\<forall>t \<in> set (event_times evs). t \<le> now"
      using snoc.prems(1) PresenceFeed
      by (simp add: clock_monotonic_def event_times_append sorted_append)
    then have "buffers_ordered now (run_events evs)" using mono by (rule snoc.IH [rotated])
    then have "buffers_ordered now (updatePresence ps lid now (run_events evs))"
      by (rule updatePresence_ordered)
    moreover have "now \<le> b" using snoc.prems(2) PresenceFeed by (simp add: event_times_append)
    ultimately show ?thesis
      using PresenceFeed by (simp add: run_events_snoc buffers_ordered_mono)
  next
    case (Frame now)
    then show ?thesis using snoc.IH [OF mono le] by (simp add: run_events_snoc update_ordered)
  next
    case (SpriteLoaded pid sheet)
    then show ?thesis
      using snoc.IH [OF mono le] spriteLoaded_ordered [of b "run_events evs" pid sheet]
      by (simp only: run_events_snoc)
  qed
qed

lemma run_events_sorted:
  assumes "clock_monotonic evs" "map_of (run_events evs) pid = Some r"
  shows "sorted (map snap_time (snapshots r))"
proof -
  have "\<forall>t \<in> set (event_times evs). t \<le> Max (set (0 # event_times evs))" by simp
  with assms(1) have "buffers_ordered (Max (set (0 # event_times evs))) (run_events evs)"
    by (rule run_events_ordered)
  with assms(2) show ?thesis unfolding buffers_ordered_def by blast
qed

lemma remote_ids_image: "remote_ids lid ps = p_profileId ` set ps - {lid}"
  by (auto simp: remote_ids_def)

lemma example_feeds_run: "run_events example_feeds = [(''ann'', example_remote)]"
  by (simp add: example_feeds_def run_events_def updatePresence_def presence_entry_def
      example_row_def new_remote_def example_remote_def new_snapshot_def INTERP_MAX_SNAPSHOTS_def)

lemma example_feeds_clock: "clock_monotonic example_feeds"
  by (simp add: example_feeds_def clock_monotonic_def)

lemma foldl_presence_distinct:
  "distinct (map fst (snd st)) \<Longrightarrow>
   distinct (map fst (snd (foldl (presence_entry lid now) st ps)))"
proof (induction ps arbitrary: st)
  case Nil
  then show ?case by simp
next
  case (Cons p ps)
  have "distinct (map fst (snd (presence_entry lid now st p)))"
    using Cons.prems
    by (cases "p_profileId p = lid") (simp_all add: presence_entry_local presence_entry_remote distinct_update)
  then show ?case using Cons.IH by simp
qed

lemma updatePresence_distinct:
  assumes "distinct (map fst rps)"
  shows "distinct (map fst (updatePresence ps lid now rps))"
proof -
  have "distinct (map fst (snd (foldl (presence_entry lid now) ({}, rps) ps)))"
    using assms by (intro foldl_presence_distinct) simp
  then show ?thesis by (simp add: updatePresence_def Let_def distinct_map_filter)
qed

lemma buffer_of_bounded: "length (buffer_of (updatePresence ps lid now rps) pid) \<le> INTERP_MAX_SNAPSHOTS"
  using updatePresence_bounded [of ps lid now rps pid]
  by (cases "map_of (updatePresence ps lid now rps) pid") (simp_all add: buffer_of_def)

lemmas entity_eval =
  run_events_def updatePresence_def presence_entry_def new_remote_def new_snapshot_def
  example_row_def INTERP_MAX_SNAPSHOTS_def INTERP_DELAY_MS_def spriteLoaded_def
  applyRemoteDirection_def animation_frames_def DIR_ANIM_def play_def gotoAndStop_def update_def update_remote_def
  interp_target_def hold_at_def lerp_between_def snap_or_move_def debounce_direction_def
  smooth_animation_def Let_def

lemma flicker_run:
  "run_events flicker_events =
     [(''ann'',
       \<lparr>containerX = 0, containerY = 0,
        sprite = Some \<lparr>textures = [''down0'', ''down1''], playing = True, currentFrame = 0\<rparr>,
        spritesheet = Some example_sheet, spriteUrl = ''/sprites/ann.json'', label = ''Ann'',
        snapshots = [new_snapshot (example_row ''ann'' 0 0 ''down'') 1000,
                     new_snapshot (example_row ''ann'' 0 0 ''left'') 1100,
                     new_snapshot (example_row ''ann'' 0 0 ''right'') 1110],
        renderX = 0, renderY = 0, direction = ''down'', animation = ''walk'',
        directionHoldFrames = 0\<rparr>)]"
  by (simp add: flicker_events_def example_sheet_def entity_eval)

section \<open>Lemmas about the presence manager\<close>

lemma mutations_append: "mutations (es @ es') = mutations es @ mutations es'"
  by (induction es rule: mutations.induct) simp_all

lemma unhandled_append:
  "unhandled_rejections (es @ es') = unhandled_rejections es @ unhandled_rejections es'"
  by (induction es rule: unhandled_rejections.induct) simp_all

lemma installs_append: "installs (es @ es') page = installs es' (installs es page)"
  by (simp add: installs_def)

lemma installs_Nil: "installs [] page = page"
  by (simp add: installs_def)

lemma installs_Cons: "installs (e # es) page = installs es (installed e page)"
  by (simp add: installs_def)

lemma caught_no_rejection: "floating (fst (promise_catch p handler)) = []"
  by (cases p) (simp_all add: promise_catch_def floating_def)

lemma caught_mutations:
  "(\<And>err. mutations (handler err) = []) \<Longrightarrow> mutations (snd (promise_catch p handler)) = []"
  by (cases p) (simp_all add: promise_catch_def)

lemma caught_unhandled:
  "(\<And>err. unhandled_rejections (handler err) = []) \<Longrightarrow>
   unhandled_rejections (snd (promise_catch p handler)) = []"
  by (cases p) (simp_all add: promise_catch_def)

lemma caught_installs:
  "(\<And>err page. installs (handler err) page = page) \<Longrightarrow>
   installs (snd (promise_catch p handler)) page = page"
  by (cases p) (simp_all add: promise_catch_def installs_Nil)

lemma publishPresence_skip:
  "\<not> force \<Longrightarrow> \<not> publish_due cfg env m \<Longrightarrow> publishPresence cfg profile env convex force m = (m, [])"
  by (simp add: publishPresence_def publish_due_def Let_def)

lemma publishPresence_send:
  "force \<or> publish_due cfg env m \<Longrightarrow>
   publishPresence cfg profile env convex force m =
     (m\<lparr>lastPresenceX := pos_x (getPlayerPosition env), lastPresenceY := pos_y (getPlayerPosition env),
        lastPresenceSentAt := date_now env\<rparr>,
      Mutate (presence_update profile env)
        # snd (promise_catch (convex (presence_update profile env))
                 (\<lambda>err. [ConsoleWarn ''Presence update failed:'' err])))"
  by (auto simp: publishPresence_def publish_due_def Let_def caught_no_rejection)

lemma publishPresence_mutations:
  "mutations (snd (publishPresence cfg profile env convex force m)) =
     (if force \<or> publish_due cfg env m then [presence_update profile env] else [])"
  by (cases "force \<or> publish_due cfg env m")
    (simp_all add: publishPresence_send publishPresence_skip caught_mutations del: disj_not1)

lemma publishPresence_state:
  "fst (publishPresence cfg profile env convex force m) =
     (if force \<or> publish_due cfg env m
      then m\<lparr>lastPresenceX := pos_x (getPlayerPosition env),
             lastPresenceY := pos_y (getPlayerPosition env), lastPresenceSentAt := date_now env\<rparr>
      else m)"
  by (cases "force \<or> publish_due cfg env m")
    (simp_all add: publishPresence_send publishPresence_skip del: disj_not1)

lemma publishPresence_unhandled:
  "unhandled_rejections (snd (publishPresence cfg profile env convex force m)) = []"
  by (cases "force \<or> publish_due cfg env m")
    (simp_all add: publishPresence_send publishPresence_skip caught_unhandled del: disj_not1)

lemma publishPresence_installs:
  "installs (snd (publishPresence cfg profile env convex force m)) page = page"
  by (cases "force \<or> publish_due cfg env m")
    (simp_all add: publishPresence_send publishPresence_skip installs_Cons installs_Nil
      caught_installs del: disj_not1)

lemma publish_due_after:
  "force \<or> publish_due cfg env m \<Longrightarrow>
   publish_due cfg env' (fst (publishPresence cfg profile env convex force m)) = due_since cfg env env'"
  by (simp add: publishPresence_state publish_due_def due_since_def del: disj_not1)

lemma start_not_guest:
  "\<not> isGuest env \<Longrightarrow>
   mutations (snd (start cfg profile env convex m)) = [presence_update profile env]
   \<and> fst (start cfg profile env convex m) =
       m\<lparr>lastPresenceX := pos_x (getPlayerPosition env),
         lastPresenceY := pos_y (getPlayerPosition env), lastPresenceSentAt := date_now env,
         presenceTimer := Some (PRESENCE_INTERVAL_MS cfg), presenceUnsub := True,
         saveTimer := Some (SAVE_POSITION_INTERVAL_MS cfg), unloadHandler := True\<rparr>"
  by (simp add: start_def Let_def mutations_append publishPresence_mutations publishPresence_state)

lemma start_guest:
  "isGuest env \<Longrightarrow>
   start cfg profile env convex m =
     (m\<lparr>presenceUnsub := True\<rparr>,
      [ConsoleLog (start_log profile env), Subscribe (getCurrentMapName env)])"
  by (simp add: start_def Let_def)

lemma start_installs:
  "installs (snd (start cfg profile env convex m)) page =
     (if isGuest env then page\<lparr>subscriptions := subscriptions page + 1\<rparr>
      else page\<lparr>presenceIntervals := presenceIntervals page + 1,
                subscriptions := subscriptions page + 1,
                saveIntervals := saveIntervals page + 1,
                beforeunloadListeners := beforeunloadListeners page + 1,
                pagehideListeners := pagehideListeners page + 1\<rparr>)"
  by (simp add: start_def Let_def installs_append installs_Cons installs_Nil
      publishPresence_installs)

lemma stop_guest:
  "isGuest env \<Longrightarrow> mutations (snd (stop profile env convex m)) = []
     \<and> fst (stop profile env convex m) =
         m\<lparr>presenceTimer := None, saveTimer := None, presenceUnsub := False, unloadHandler := False\<rparr>"
  by (simp add: stop_def Let_def mutations_append)

lemma stop_installs:
  "installs (snd (stop profile env convex m)) page =
     installs
       ((if presenceTimer m \<noteq> None then [ClearInterval ''presence''] else [])
        @ (if saveTimer m \<noteq> None then [ClearInterval ''save''] else [])
        @ (if presenceUnsub m then [Unsubscribe] else [])
        @ (if unloadHandler m
           then [RemoveEventListener ''beforeunload'', RemoveEventListener ''pagehide''] else []))
       page"
  by (simp add: stop_def Let_def installs_append installs_Cons installs_Nil
      caught_no_rejection caught_installs)

lemma saveTimerFired_installs: "installs (snd (saveTimerFired profile env convex m)) page = page"
  by (simp add: saveTimerFired_def Let_def installs_append installs_Cons installs_Nil
      caught_no_rejection caught_installs)

lemma unloadFired_installs: "installs (snd (unloadFired profile convex m)) page = page"
  by (simp add: unloadFired_def Let_def installs_append installs_Cons installs_Nil
      caught_no_rejection caught_installs)

lemma start_unhandled: "unhandled_rejections (snd (start cfg profile env convex m)) = []"
  by (simp add: start_def Let_def unhandled_append publishPresence_unhandled)

lemma saveTimerFired_unhandled: "unhandled_rejections (snd (saveTimerFired profile env convex m)) = []"
  by (simp add: saveTimerFired_def Let_def unhandled_append caught_unhandled caught_no_rejection)

lemma unloadFired_unhandled: "unhandled_rejections (snd (unloadFired profile convex m)) = []"
  by (simp add: unloadFired_def Let_def unhandled_append caught_unhandled caught_no_rejection)

lemma stop_unhandled: "unhandled_rejections (snd (stop profile env convex m)) = []"
  by (simp add: stop_def Let_def unhandled_append caught_unhandled caught_no_rejection)

lemma step_unhandled: "unhandled_rejections (snd (step cfg profile session occ)) = []"
proof -
  obtain ev env convex where occ: "occ = (ev, env, convex)" by (cases occ) auto
  obtain m page where session: "session = (m, page)" by (cases session) auto
  show ?thesis unfolding occ session
    by (cases ev)
      (simp_all add: called_def start_unhandled stop_unhandled publishPresence_unhandled
        presenceTimerFired_def saveTimerFired_unhandled unloadFired_unhandled
        feedDelivered_def feedError_def)
qed

lemma run_unhandled: "unhandled_rejections (snd (run cfg profile session evs)) = []"
  by (induction evs arbitrary: session) (simp_all add: Let_def unhandled_append step_unhandled)

lemma start_independent:
  "fst (start cfg profile env convex m) = fst (start cfg profile env convex' m)
   \<and> mutations (snd (start cfg profile env convex m)) = mutations (snd (start cfg profile env convex' m))"
  by (simp add: start_def Let_def mutations_append publishPresence_mutations publishPresence_state)

lemma saveTimerFired_independent:
  "fst (saveTimerFired profile env convex m) = fst (saveTimerFired profile env convex' m)
   \<and> mutations (snd (saveTimerFired profile env convex m))
       = mutations (snd (saveTimerFired profile env convex' m))"
  by (simp add: saveTimerFired_def Let_def mutations_append caught_mutations caught_no_rejection)

lemma unloadFired_independent:
  "fst (unloadFired profile convex m) = fst (unloadFired profile convex' m)
   \<and> mutations (snd (unloadFired profile convex m)) = mutations (snd (unloadFired profile convex' m))"
  by (simp add: unloadFired_def Let_def mutations_append caught_mutations caught_no_rejection)

lemma stop_independent:
  "fst (stop profile env convex m) = fst (stop profile env convex' m)
   \<and> mutations (snd (stop profile env convex m)) = mutations (snd (stop profile env convex' m))"
  by (simp add: stop_def Let_def mutations_append caught_mutations caught_no_rejection)

lemma step_independent:
  "fst (step cfg profile session (ev, env, convex)) = fst (step cfg profile session (ev, env, convex'))
   \<and> mutations (snd (step cfg profile session (ev, env, convex)))
       = mutations (snd (step cfg profile session (ev, env, convex')))"
proof -
  obtain m page where session: "session = (m, page)" by (cases session) auto
  show ?thesis
    unfolding session
    using start_independent [of cfg profile env convex m convex']
      stop_independent [of profile env convex m convex']
      saveTimerFired_independent [of profile env convex m convex']
      unloadFired_independent [of profile convex m convex']
    by (cases ev)
      (simp_all add: called_def presenceTimerFired_def publishPresence_mutations
        publishPresence_state publishPresence_installs start_installs stop_installs
        saveTimerFired_installs unloadFired_installs)
qed

lemma run_independent:
  "same_calls evs evs' \<Longrightarrow>
   fst (run cfg profile session evs) = fst (run cfg profile session evs')
   \<and> mutations (snd (run cfg profile session evs)) = mutations (snd (run cfg profile session evs'))"
proof (induction evs arbitrary: session evs')
  case Nil
  then show ?case by (simp add: same_calls_def)
next
  case (Cons occ evs)
  from Cons.prems obtain occ' rest where evs': "evs' = occ' # rest"
    by (cases evs') (auto simp: same_calls_def)
  obtain ev env convex where occ: "occ = (ev, env, convex)" by (cases occ) auto
  obtain ev' env' convex' where occ': "occ' = (ev', env', convex')" by (cases occ') auto
  from Cons.prems have same: "ev' = ev" "env' = env" "same_calls evs rest"
    by (simp_all add: same_calls_def evs' occ occ')
  have first: "fst (step cfg profile session occ) = fst (step cfg profile session occ')"
    "mutations (snd (step cfg profile session occ)) = mutations (snd (step cfg profile session occ'))"
    using step_independent [of cfg profile session ev env convex convex']
    by (simp_all add: occ occ' same)
  show ?case
    using Cons.IH [OF same(3), of "fst (step cfg profile session occ')"] first
    by (simp add: evs' Let_def mutations_append)
qed

lemma presence_tick:
  "presenceIntervals page > 0 \<Longrightarrow>
   step cfg profile (m, page) (PresenceTimerFired, env, convex)
     = ((fst (publishPresence cfg profile env convex False m), page),
        snd (publishPresence cfg profile env convex False m))"
  by (simp add: called_def presenceTimerFired_def publishPresence_installs)

lemma guest_step:
  assumes "guest_idle session" "isGuest env"
  shows "guest_idle (fst (step cfg profile session (ev, env, convex)))
     \<and> mutations (snd (step cfg profile session (ev, env, convex))) = []"
proof -
  obtain m page where session: "session = (m, page)" by (cases session) auto
  show ?thesis
    using assms unfolding session
    by (cases ev)
      (simp_all add: guest_idle_def called_def start_guest stop_guest stop_installs
        installs_Cons installs_Nil feedDelivered_def feedError_def)
qed

lemma guest_run:
  "guest_idle session \<Longrightarrow> \<forall>occ \<in> set evs. isGuest (fst (snd occ)) \<Longrightarrow>
   guest_idle (fst (run cfg profile session evs)) \<and> mutations (snd (run cfg profile session evs)) = []"
proof (induction evs arbitrary: session)
  case Nil
  then show ?case by simp
next
  case (Cons occ evs)
  obtain ev env convex where occ: "occ = (ev, env, convex)" by (cases occ) auto
  with Cons.prems have g: "isGuest env" by simp
  from guest_step [OF Cons.prems(1) g, of cfg profile ev convex]
  have first: "guest_idle (fst (step cfg profile session occ))"
    "mutations (snd (step cfg profile session occ)) = []" by (simp_all add: occ)
  from Cons.IH [OF first(1)] Cons.prems(2) first(2)
  show ?case by (simp add: Let_def mutations_append)
qed

text \<open>
  A second \<open>start\<close> without a \<open>stop\<close> leaves the interval of the first one set: after
  \<open>start(); start(); stop()\<close> one presence interval is still installed, and its next firing
  publishes.
\<close>

lemma restart_leaves_interval:
  "presenceIntervals (snd (fst (run example_config example_profile (new_manager, new_page)
      [(Start, example_env 64 64 1000 False, online), (Start, example_env 64 64 2000 False, online),
       (Stop, example_env 64 64 3000 False, online)]))) = 1
   \<and> mutations (snd (run example_config example_profile (new_manager, new_page)
      [(Start, example_env 64 64 1000 False, online), (Start, example_env 64 64 2000 False, online),
       (Stop, example_env 64 64 3000 False, online),
       (PresenceTimerFired, example_env 90 64 3200 False, online)]))
     = [presence_update example_profile (example_env 64 64 1000 False),
        presence_update example_profile (example_env 64 64 2000 False),
        PresenceRemove ''p1'',
        presence_update example_profile (example_env 90 64 3200 False)]"
  by (simp add: Let_def called_def start_installs stop_installs installs_Cons installs_Nil
      start_not_guest stop_def mutations_append promise_catch_def floating_def online_def
      presenceTimerFired_def publishPresence_mutations publishPresence_state
      publishPresence_installs publish_due_def new_manager_def new_page_def example_env_def
      example_config_def example_profile_def)

section \<open>Lemmas about the combat settings inputs\<close>

lemma clamp_within: "lo \<le> hi \<Longrightarrow> in_range (Some (max lo (min hi r))) lo hi"
  by (simp add: in_range_def)

lemma clamp_is_whole:
  assumes "is_whole (Some lo)" "is_whole (Some hi)"
  shows "is_whole (Some (max lo (min hi (Math_round v))))"
proof -
  have "is_whole (Some (Math_round v))" by (simp add: is_whole_def Math_round_def)
  with assms show ?thesis by (auto simp: max_def min_def)
qed

lemma combatRangeInput_finite:
  "get_setting attackRangePx (combatRangeInput cfg (Finite v) (Some md))
     = Some (max (COMBAT_ATTACK_RANGE_MIN_PX cfg) (min (COMBAT_ATTACK_RANGE_MAX_PX cfg) (Math_round v)))"
  by (simp add: get_setting_def combatRangeInput_def)

lemma combatCooldownInput_finite:
  "get_setting playerAttackCooldownMs (combatCooldownInput cfg (Finite v) (Some md))
     = Some (max (COMBAT_PLAYER_ATTACK_COOLDOWN_MIN_MS cfg)
         (min (COMBAT_PLAYER_ATTACK_COOLDOWN_MAX_MS cfg) (Math_round v)))"
  by (simp add: get_setting_def combatCooldownInput_def)

lemma combatNpcHitCdInput_finite:
  "get_setting npcHitCooldownMs (combatNpcHitCdInput cfg (Finite v) (Some md))
     = Some (max (COMBAT_NPC_HIT_COOLDOWN_MIN_MS cfg)
         (min (COMBAT_NPC_HIT_COOLDOWN_MAX_MS cfg) (Math_round v)))"
  by (simp add: get_setting_def combatNpcHitCdInput_def)

lemma combatVarianceInput_finite:
  "get_setting damageVariancePct (combatVarianceInput cfg (Finite v) (Some md))
     = Some (max (COMBAT_DAMAGE_VARIANCE_MIN_PCT cfg)
         (min (COMBAT_DAMAGE_VARIANCE_MAX_PCT cfg) (Math_round v)))"
  by (simp add: get_setting_def combatVarianceInput_def)

lemma inputs_not_finite:
  "\<not> Number_isFinite n \<Longrightarrow>
   combatRangeInput cfg n mapData = mapData \<and> combatCooldownInput cfg n mapData = mapData
   \<and> combatNpcHitCdInput cfg n mapData = mapData \<and> combatVarianceInput cfg n mapData = mapData"
  by (cases n; cases mapData)
    (simp_all add: combatRangeInput_def combatCooldownInput_def combatNpcHitCdInput_def
      combatVarianceInput_def)

section \<open>Lemmas about the combat resolution\<close>

lemma resolveAttack_hit:
  assumes "resolveAttack rules distance now roll w = (result, w1)" "success result"
  shows "lastHitAt (npc w1) = Some now \<and> rule_combatEnabled rules
     \<and> currentHp (npc w1) = currentHp (npc w) - the (damage result)
     \<and> playerXp w1 = playerXp w + xpGained result
     \<and> (xpGained result = 0 \<or> xpGained result = rule_xpReward rules)
     \<and> lootDrops w1 \<le> lootDrops w + 1"
  using assms
  by (auto simp: resolveAttack_def rejected_def Let_def split: if_splits)

lemma resolveAttack_in_cooldown:
  assumes "lastHitAt (npc w) = Some hit" "now - hit < rule_npcHitCooldownMs rules"
  shows "\<not> success (fst (resolveAttack rules distance now roll w))
     \<and> snd (resolveAttack rules distance now roll w) = w"
  using assms by (simp add: resolveAttack_def rejected_def)

lemma retries_in_cooldown:
  assumes "lastHitAt (npc w) = Some hit"
    "\<forall>again \<in> set later. fst (snd again) - hit < rule_npcHitCooldownMs rules"
  shows "snd (retries rules later w) = w
     \<and> (\<forall>result \<in> set (fst (retries rules later w)). \<not> success result)"
  using assms(2)
proof (induction later)
  case Nil
  then show ?case by simp
next
  case (Cons again later)
  obtain distance now roll where again: "again = (distance, now, roll)" by (cases again) auto
  with Cons.prems have "now - hit < rule_npcHitCooldownMs rules" by simp
  from resolveAttack_in_cooldown [OF assms(1) this, of distance roll] Cons
  show ?case by (simp add: again Let_def)
qed

section \<open>The entity layer: interpolation, buffers, tracked players\<close>

subsection \<open>Interpolation\<close>

text \<open>
  C1. Let \<open>remote\<close> be a remote player of a layer that has received any feeds, frames and
  sprite loads under a monotonic clock. \<open>EntityLayer.update\<close> at \<open>now\<close> runs the loop body
  on it with \<open>renderTime = now - INTERP_DELAY_MS\<close>. Whenever two consecutive snapshots bracket
  \<open>renderTime\<close>, the rendered position is the point of the segment between their positions
  at the parameter \<open>(renderTime - a.time) / (b.time - a.time)\<close>, which lies in \<open>[0, 1]\<close>. With
  a non-empty buffer the rendered position always lies on the segment between two
  neighbouring snapshots, a render time at or after the latest snapshot renders the latest
  snapshot's position, a buffer of one snapshot renders that snapshot's position, and the
  velocities stored in the snapshots have no influence on the rendered position.
\<close>

theorem C1_interpolation_bounded:
  assumes "clock_monotonic events" and "map_of (run_events events) pid = Some remote"
  shows "map_of (update now (run_events events)) pid
           = Some (update_remote (now - INTERP_DELAY_MS) remote)
     \<and> (Suc k < length (snapshots remote) \<and> snap_time (snapshots remote ! k) < renderTime
          \<and> renderTime < snap_time (snapshots remote ! Suc k) \<longrightarrow>
          on_segment (render_pos (update_remote renderTime remote))
            (snap_pos (snapshots remote ! k)) (snap_pos (snapshots remote ! Suc k))
          \<and> render_pos (update_remote renderTime remote) =
            (snap_x (snapshots remote ! k)
               + (snap_x (snapshots remote ! Suc k) - snap_x (snapshots remote ! k))
                 * ((renderTime - snap_time (snapshots remote ! k))
                    / (snap_time (snapshots remote ! Suc k) - snap_time (snapshots remote ! k))),
             snap_y (snapshots remote ! k)
               + (snap_y (snapshots remote ! Suc k) - snap_y (snapshots remote ! k))
                 * ((renderTime - snap_time (snapshots remote ! k))
                    / (snap_time (snapshots remote ! Suc k) - snap_time (snapshots remote ! k)))))
     \<and> (snapshots remote \<noteq> [] \<longrightarrow>
          (\<exists>i j. i < length (snapshots remote) \<and> j < length (snapshots remote)
             \<and> (j = i \<or> j = Suc i)
             \<and> on_segment (render_pos (update_remote renderTime remote))
                 (snap_pos (snapshots remote ! i)) (snap_pos (snapshots remote ! j))))
     \<and> (snapshots remote \<noteq> [] \<and> snap_time (last (snapshots remote)) \<le> renderTime \<longrightarrow>
          render_pos (update_remote renderTime remote) = snap_pos (last (snapshots remote)))
     \<and> (length (snapshots remote) = 1 \<longrightarrow>
          render_pos (update_remote renderTime remote) = snap_pos (snapshots remote ! 0))
     \<and> render_pos (update_remote renderTime (set_velocities vx vy remote))
          = render_pos (update_remote renderTime remote)"
proof -
  have srt: "sorted (map snap_time (snapshots remote))"
    using assms by (rule run_events_sorted)
  have loop: "map_of (update now (run_events events)) pid
      = Some (update_remote (now - INTERP_DELAY_MS) remote)"
    using assms(2) by (simp add: map_of_update)
  have bracketed: "on_segment (render_pos (update_remote renderTime remote))
            (snap_pos (snapshots remote ! k)) (snap_pos (snapshots remote ! Suc k))
          \<and> render_pos (update_remote renderTime remote) =
            (snap_x (snapshots remote ! k)
               + (snap_x (snapshots remote ! Suc k) - snap_x (snapshots remote ! k))
                 * ((renderTime - snap_time (snapshots remote ! k))
                    / (snap_time (snapshots remote ! Suc k) - snap_time (snapshots remote ! k))),
             snap_y (snapshots remote ! k)
               + (snap_y (snapshots remote ! Suc k) - snap_y (snapshots remote ! k))
                 * ((renderTime - snap_time (snapshots remote ! k))
                    / (snap_time (snapshots remote ! Suc k) - snap_time (snapshots remote ! k))))"
    if k: "Suc k < length (snapshots remote)" and lo: "snap_time (snapshots remote ! k) < renderTime"
      and hi: "renderTime < snap_time (snapshots remote ! Suc k)"
  proof -
    have tgt: "interp_target remote renderTime
        = Some (lerp_between (snapshots remote ! k) (snapshots remote ! Suc k) renderTime)"
      using srt k lo hi by (rule interp_target_bracketed)
    have pos: "render_pos (update_remote renderTime remote)
        = target_pos (lerp_between (snapshots remote ! k) (snapshots remote ! Suc k) renderTime)"
      using tgt by (rule render_pos_update_remote)
    show ?thesis
      unfolding pos
    proof (intro conjI)
      show "on_segment
          (target_pos (lerp_between (snapshots remote ! k) (snapshots remote ! Suc k) renderTime))
          (snap_pos (snapshots remote ! k)) (snap_pos (snapshots remote ! Suc k))"
        by (rule target_pos_lerp_on_segment)
    qed (rule target_pos_lerp_inside [OF lo hi])
  qed
  have consecutive: "\<exists>i j. i < length (snapshots remote) \<and> j < length (snapshots remote)
             \<and> (j = i \<or> j = Suc i)
             \<and> on_segment (render_pos (update_remote renderTime remote))
                 (snap_pos (snapshots remote ! i)) (snap_pos (snapshots remote ! j))"
    if "snapshots remote \<noteq> []"
  proof -
    from interp_target_consecutive [OF that, of renderTime]
    obtain i j tgt where *: "interp_target remote renderTime = Some tgt"
      "i < length (snapshots remote)" "j < length (snapshots remote)" "j = i \<or> j = Suc i"
      "on_segment (target_pos tgt) (snap_pos (snapshots remote ! i)) (snap_pos (snapshots remote ! j))"
      by blast
    from *(1) have "render_pos (update_remote renderTime remote) = target_pos tgt"
      by (rule render_pos_update_remote)
    with * show ?thesis by auto
  qed
  have latest: "render_pos (update_remote renderTime remote) = snap_pos (last (snapshots remote))"
    if "snapshots remote \<noteq> []" "snap_time (last (snapshots remote)) \<le> renderTime"
    using render_pos_update_remote [OF interp_target_latest [OF that]]
    by (simp add: target_pos_hold_at)
  have single: "render_pos (update_remote renderTime remote) = snap_pos (snapshots remote ! 0)"
    if "length (snapshots remote) = 1"
    using render_pos_update_remote [OF interp_target_single [OF that]]
    by (simp add: target_pos_hold_at)
  from loop bracketed consecutive latest single render_pos_set_velocities show ?thesis
    by blast
qed

text \<open>
  Witness of C1: two feeds at 1000 and 1100 move a player from (0, 0) to (10, 20). At render
  time 1050 it is drawn at (5, 10), at render time 1400 at (10, 20), and after the first
  feed alone at (0, 0).
\<close>

theorem C1_interpolation_bounded_witness:
  "clock_monotonic example_feeds
   \<and> map_of (run_events example_feeds) ''ann'' = Some example_remote
   \<and> Suc 0 < length (snapshots example_remote)
   \<and> snap_time (snapshots example_remote ! 0) < 1050
   \<and> 1050 < snap_time (snapshots example_remote ! Suc 0)
   \<and> render_pos (update_remote 1050 example_remote) = (5, 10)
   \<and> snapshots example_remote \<noteq> []
   \<and> snap_time (last (snapshots example_remote)) \<le> 1400
   \<and> render_pos (update_remote 1400 example_remote) = (10, 20)
   \<and> clock_monotonic example_first_feed
   \<and> map_of (run_events example_first_feed) ''ann'' = Some example_first_remote
   \<and> length (snapshots example_first_remote) = 1
   \<and> render_pos (update_remote 1400 example_first_remote) = (0, 0)"
proof -
  have run: "map_of (run_events example_feeds) ''ann'' = Some example_remote"
    by (simp add: example_feeds_run)
  have snaps: "snapshots example_remote =
      [new_snapshot (example_row ''ann'' 0 0 ''down'') 1000,
       new_snapshot (example_row ''ann'' 10 20 ''down'') 1100]"
    "snapshots example_first_remote = [new_snapshot (example_row ''ann'' 0 0 ''down'') 1000]"
    by (simp_all add: example_remote_def example_first_remote_def)
  have vals: "snap_time (new_snapshot p t) = t"
    "snap_pos (new_snapshot (example_row i x y d) t) = (x, y)" for p t i x y d
    by (simp_all add: new_snapshot_def snap_pos_def example_row_def)
  have a: "render_pos (update_remote 1050 example_remote) = (5, 10)"
    using C1_interpolation_bounded [OF example_feeds_clock run, where k = 0 and renderTime = 1050]
    by (simp add: snaps new_snapshot_def example_row_def)
  have b: "render_pos (update_remote 1400 example_remote) = (10, 20)"
    using C1_interpolation_bounded [OF example_feeds_clock run, where renderTime = 1400]
    by (simp add: snaps vals)
  have run1: "map_of (run_events example_first_feed) ''ann'' = Some example_first_remote"
    by (simp add: example_first_feed_def run_events_def updatePresence_def presence_entry_def
      example_row_def new_remote_def example_remote_def example_first_remote_def
      new_snapshot_def INTERP_MAX_SNAPSHOTS_def)
  have clock1: "clock_monotonic example_first_feed"
    by (simp add: example_first_feed_def clock_monotonic_def)
  have c: "render_pos (update_remote 1400 example_first_remote) = (0, 0)"
    using C1_interpolation_bounded [OF clock1 run1, where renderTime = 1400]
    by (simp add: snaps vals)
  show ?thesis using example_feeds_clock run a b c clock1 run1 by (simp add: snaps vals)
qed

subsection \<open>The snapshot buffer\<close>

text \<open>
  C3. After every call of \<open>EntityLayer.updatePresence\<close>, from any earlier state, the
  snapshot buffer of every tracked remote player holds at most INTERP_MAX_SNAPSHOTS = 6
  snapshots. Trimming removes from the front: the buffer of a player listed once in the
  feed is its earlier buffer followed by the new snapshot, without the oldest snapshots
  beyond six.
\<close>

theorem C3_snapshot_buffer_bounded:
  "length (buffer_of (updatePresence presenceList localProfileId now remotePlayers) pid)
      \<le> INTERP_MAX_SNAPSHOTS
   \<and> INTERP_MAX_SNAPSHOTS = 6
   \<and> (distinct (map fst remotePlayers) \<longrightarrow>
        (\<forall>(tracked, remote) \<in> set (updatePresence presenceList localProfileId now remotePlayers).
            length (snapshots remote) \<le> 6))
   \<and> trim_snapshots snaps = drop (length snaps - 6) snaps
   \<and> (presenceList = before @ p # after \<and> p_profileId p \<noteq> localProfileId
        \<and> p_profileId p \<notin> p_profileId ` set before \<and> p_profileId p \<notin> p_profileId ` set after \<longrightarrow>
        buffer_of (updatePresence presenceList localProfileId now remotePlayers) (p_profileId p)
          = drop (Suc (length (buffer_of remotePlayers (p_profileId p))) - 6)
              (buffer_of remotePlayers (p_profileId p) @ [new_snapshot p now]))"
proof -
  let ?out = "updatePresence presenceList localProfileId now remotePlayers"
  have six: "INTERP_MAX_SNAPSHOTS = 6" by (simp add: INTERP_MAX_SNAPSHOTS_def)
  have all: "\<forall>(tracked, remote) \<in> set ?out. length (snapshots remote) \<le> 6"
    if "distinct (map fst remotePlayers)"
  proof -
    have d: "distinct (map fst ?out)" using that by (rule updatePresence_distinct)
    show ?thesis
    proof (clarify)
      fix tracked remote assume "(tracked, remote) \<in> set ?out"
      with d have "map_of ?out tracked = Some remote" by simp
      then show "length (snapshots remote) \<le> 6" using updatePresence_bounded six by metis
    qed
  qed
  have trim: "trim_snapshots snaps = drop (length snaps - 6) snaps"
    using trim_snapshots_drop [of snaps] by (simp add: six)
  have once: "buffer_of ?out (p_profileId p)
          = drop (Suc (length (buffer_of remotePlayers (p_profileId p))) - 6)
              (buffer_of remotePlayers (p_profileId p) @ [new_snapshot p now])"
    if "presenceList = before @ p # after" "p_profileId p \<noteq> localProfileId"
      "p_profileId p \<notin> p_profileId ` set before" "p_profileId p \<notin> p_profileId ` set after"
  proof -
    have "map_of ?out (p_profileId p)
        = Some (pushed p now (map_of remotePlayers (p_profileId p)))"
      using that
      by (intro updatePresence_once [where pre = before and post = after])
        (auto simp: remote_ids_image)
    then show ?thesis
      by (simp add: buffer_of_def pushed_snapshots trim_snapshots_drop six)
  qed
  from buffer_of_bounded six all trim once show ?thesis by blast
qed

text \<open>
  Witness of C3: a player with a full buffer of six snapshots receives a seventh; the
  oldest one is dropped and the new one is last.
\<close>

theorem C3_snapshot_buffer_bounded_witness:
  "distinct (map fst [(''ann'', example_remote\<lparr>snapshots := full_buffer\<rparr>)])
   \<and> length (buffer_of (updatePresence [example_row ''ann'' 7 0 ''right''] ''me'' 700
           [(''ann'', example_remote\<lparr>snapshots := full_buffer\<rparr>)]) ''ann'') = 6
   \<and> [example_row ''ann'' 7 0 ''right''] = [] @ example_row ''ann'' 7 0 ''right'' # []
   \<and> p_profileId (example_row ''ann'' 7 0 ''right'') \<noteq> ''me''
   \<and> buffer_of (updatePresence [example_row ''ann'' 7 0 ''right''] ''me'' 700
         [(''ann'', example_remote\<lparr>snapshots := full_buffer\<rparr>)]) ''ann''
       = tl full_buffer @ [new_snapshot (example_row ''ann'' 7 0 ''right'') 700]"
proof -
  have id: "p_profileId (example_row ''ann'' 7 0 ''right'') = ''ann''"
    by (simp add: example_row_def)
  have old: "buffer_of [(''ann'', example_remote\<lparr>snapshots := full_buffer\<rparr>)] ''ann'' = full_buffer"
    by (simp add: buffer_of_def)
  have len: "length full_buffer = 6" by (simp add: full_buffer_def)
  have tl: "drop (Suc 0) full_buffer = tl full_buffer" by (simp add: drop_Suc)
  show ?thesis
    using C3_snapshot_buffer_bounded [where presenceList = "[example_row ''ann'' 7 0 ''right'']"
        and localProfileId = "''me''" and now = 700 and before = "[]" and after = "[]"
        and p = "example_row ''ann'' 7 0 ''right''"
        and remotePlayers = "[(''ann'', example_remote\<lparr>snapshots := full_buffer\<rparr>)]"]
    by (simp add: id old len tl INTERP_MAX_SNAPSHOTS_def)
qed

subsection \<open>The tracked players\<close>

text \<open>
  C4. After a call of \<open>EntityLayer.updatePresence\<close> with a presence list, from any earlier
  state, the tracked remote players are exactly the profile ids of the list other than the
  local player's: a player tracked before and missing from the list is gone after the
  call, and the set does not depend on the clock or on the earlier state, so no timeout
  takes part in the removal.
\<close>

theorem C4_tracked_set_equals_feed:
  "fst ` set (updatePresence presenceList localProfileId now remotePlayers)
      = p_profileId ` set presenceList - {localProfileId}
   \<and> dom (map_of (updatePresence presenceList localProfileId now remotePlayers))
      = p_profileId ` set presenceList - {localProfileId}
   \<and> (fst ` set remotePlayers - p_profileId ` set presenceList)
        \<inter> fst ` set (updatePresence presenceList localProfileId now remotePlayers) = {}
   \<and> fst ` set (updatePresence presenceList localProfileId now remotePlayers)
      = fst ` set (updatePresence presenceList localProfileId now' remotePlayers')"
proof -
  have keys: "fst ` set (updatePresence presenceList localProfileId t rps)
      = p_profileId ` set presenceList - {localProfileId}" for t rps
    by (simp add: updatePresence_keys remote_ids_image)
  have "dom (map_of (updatePresence presenceList localProfileId now remotePlayers))
      = p_profileId ` set presenceList - {localProfileId}"
    using keys [of now remotePlayers] by (simp add: dom_map_of_conv_image_fst)
  moreover have "(fst ` set remotePlayers - p_profileId ` set presenceList)
        \<inter> fst ` set (updatePresence presenceList localProfileId now remotePlayers) = {}"
    unfolding keys by blast
  ultimately show ?thesis using keys by simp
qed

subsection \<open>The direction debounce\<close>

text \<open>
  C5, evaluated at an input where it fails. A player facing down is reported facing left at
  1100 and facing right at 1110. The frame at 1402 has the interpolated target direction
  left and leaves the sprite facing down; the frame at 1418 has the target right for the
  first time, and the sprite is switched to the frames of right at once: the hold counter
  counts the updates whose target differs from the shown direction, not the updates that
  agree on one target.
\<close>

theorem C5_single_update_target_changes_facing:
  "facing_of (run_events flicker_events) ''ann'' = Some [''down0'', ''down1'']
   \<and> target_direction_of (run_events flicker_events) ''ann'' 1402 = Some ''left''
   \<and> facing_of (run_events (flicker_events @ [Frame 1402])) ''ann'' = Some [''down0'', ''down1'']
   \<and> target_direction_of (run_events (flicker_events @ [Frame 1402])) ''ann'' 1418 = Some ''right''
   \<and> facing_of (run_events (flicker_events @ [Frame 1402, Frame 1418])) ''ann''
        = Some [''right0'', ''right1'']"
proof -
  have f1: "run_events (flicker_events @ [Frame 1402]) = update 1402 (run_events flicker_events)"
    by (simp add: run_events_snoc)
  have f2: "run_events (flicker_events @ [Frame 1402, Frame 1418])
      = update 1418 (update 1402 (run_events flicker_events))"
    by (simp add: run_events_def)
  show ?thesis
    unfolding f1 f2 flicker_run
    by (simp add: facing_of_def target_direction_of_def facing_def interp_direction_def
        example_sheet_def entity_eval)
qed

subsection \<open>The snap-distance check\<close>

lemma snap_or_move_eq: "snap_or_move targetX targetY remote = move_directly targetX targetY remote"
  by (simp add: snap_or_move_def move_directly_def)

text \<open>
  C8. The teleport snap-distance check of \<open>EntityLayer.update\<close> has no observable effect:
  both branches assign the computed target to \<open>renderX\<close>/\<open>renderY\<close>, so the update is
  equal, on every input, to the same update with the conditional removed, and the rendered
  position is always the interpolation target.
\<close>

theorem C8_snap_check_no_effect:
  "update now remotePlayers = update_no_snap now remotePlayers
   \<and> update_remote renderTime remote = update_remote_no_snap renderTime remote
   \<and> renderX (snap_or_move targetX targetY remote) = targetX
   \<and> renderY (snap_or_move targetX targetY remote) = targetY"
proof -
  have body: "update_remote rt r = update_remote_no_snap rt r" for rt r
    by (simp add: update_remote_def update_remote_no_snap_def snap_or_move_eq
        split: option.split prod.split)
  have loop: "update now remotePlayers = update_no_snap now remotePlayers"
    by (simp add: update_def update_no_snap_def body)
  have pos: "renderX (snap_or_move targetX targetY remote) = targetX
      \<and> renderY (snap_or_move targetX targetY remote) = targetY"
    by (simp add: snap_or_move_eq move_directly_def)
  from body loop pos show ?thesis by simp
qed

section \<open>The presence manager: publishing, failures, guests\<close>

subsection \<open>The publish gate\<close>

text \<open>
  C2, as the code has it. For a session that is not a guest's, \<open>start\<close> sends one
  \<open>presence.update\<close> whatever the position and the time (the forced publish) and sets the
  presence interval. Each firing of a set interval runs \<open>publishPresence\<close> unforced, which
  sends one \<open>presence.update\<close> if and only if the squared distance moved since the last
  publish is at least the square of PRESENCE_MOVE_THRESHOLD_PX, or the time since the last
  publish is at least PRESENCE_STATIONARY_HEARTBEAT_MS; a publish records the position and
  the time, and when neither condition holds nothing is sent and the manager, with
  \<open>lastPresenceX\<close>, \<open>lastPresenceY\<close> and \<open>lastPresenceSentAt\<close>, is unchanged.
\<close>

theorem C2_publish_gate:
  "(\<not> isGuest env \<longrightarrow>
      mutations (snd (start cfg profile env convex m)) = [presence_update profile env]
      \<and> presenceTimer (fst (start cfg profile env convex m)) = Some (PRESENCE_INTERVAL_MS cfg))
   \<and> (\<not> isGuest env \<longrightarrow>
        presenceIntervals (snd (fst (step cfg profile (m, page) (Start, env, convex))))
          = presenceIntervals page + 1)
   \<and> (presenceIntervals page > 0 \<longrightarrow>
        step cfg profile (m, page) (PresenceTimerFired, env, convex)
          = ((fst (publishPresence cfg profile env convex False m), page),
             snd (publishPresence cfg profile env convex False m)))
   \<and> publish_due cfg env m =
       ((pos_x (getPlayerPosition env) - lastPresenceX m)
            * (pos_x (getPlayerPosition env) - lastPresenceX m)
          + (pos_y (getPlayerPosition env) - lastPresenceY m)
            * (pos_y (getPlayerPosition env) - lastPresenceY m)
          \<ge> PRESENCE_MOVE_THRESHOLD_PX cfg * PRESENCE_MOVE_THRESHOLD_PX cfg
        \<or> date_now env - lastPresenceSentAt m \<ge> PRESENCE_STATIONARY_HEARTBEAT_MS cfg)
   \<and> mutations (snd (publishPresence cfg profile env convex False m))
       = (if publish_due cfg env m then [presence_update profile env] else [])
   \<and> fst (publishPresence cfg profile env convex False m)
       = (if publish_due cfg env m
          then m\<lparr>lastPresenceX := pos_x (getPlayerPosition env),
                 lastPresenceY := pos_y (getPlayerPosition env),
                 lastPresenceSentAt := date_now env\<rparr>
          else m)
   \<and> (\<not> publish_due cfg env m \<longrightarrow> publishPresence cfg profile env convex False m = (m, []))"
proof -
  have forced: "mutations (snd (start cfg profile env convex m)) = [presence_update profile env]
      \<and> presenceTimer (fst (start cfg profile env convex m)) = Some (PRESENCE_INTERVAL_MS cfg)"
    if "\<not> isGuest env"
    using start_not_guest [OF that, of cfg profile convex m] by simp
  have set: "presenceIntervals (snd (fst (step cfg profile (m, page) (Start, env, convex))))
      = presenceIntervals page + 1" if "\<not> isGuest env"
    using that by (simp add: called_def start_installs)
  have tick: "step cfg profile (m, page) (PresenceTimerFired, env, convex)
      = ((fst (publishPresence cfg profile env convex False m), page),
         snd (publishPresence cfg profile env convex False m))" if "presenceIntervals page > 0"
    using that by (rule presence_tick)
  have skip: "publishPresence cfg profile env convex False m = (m, [])"
    if "\<not> publish_due cfg env m"
    using that by (simp add: publishPresence_skip)
  show ?thesis
    using forced set tick skip
      publishPresence_mutations [of cfg profile env convex False m]
      publishPresence_state [of cfg profile env convex False m]
    by (simp add: publish_due_def)
qed

text \<open>
  Witness of C2: a start that is not a guest's publishes; with a threshold of 4 and a
  heartbeat of 5000, a move of 2 after 200 ms publishes nothing, and standing still for
  5000 ms publishes.
\<close>

theorem C2_publish_gate_witness:
  "\<not> isGuest (example_env 64 64 1000 False)
   \<and> mutations (snd (start example_config example_profile (example_env 64 64 1000 False) online
        new_manager)) = [presence_update example_profile (example_env 64 64 1000 False)]
   \<and> presenceIntervals (snd (fst (step example_config example_profile (new_manager, new_page)
        (Start, example_env 64 64 1000 False, online)))) = 1
   \<and> presenceIntervals started_page > 0
   \<and> \<not> publish_due example_config (example_env 66 64 1200 False) (published_at 64 64 1000)
   \<and> step example_config example_profile (published_at 64 64 1000, started_page)
        (PresenceTimerFired, example_env 66 64 1200 False, online)
       = ((published_at 64 64 1000, started_page), [])
   \<and> publish_due example_config (example_env 64 64 6000 False) (published_at 64 64 1000)
   \<and> mutations (snd (publishPresence example_config example_profile
        (example_env 64 64 6000 False) online False (published_at 64 64 1000)))
       = [presence_update example_profile (example_env 64 64 6000 False)]"
proof -
  have g: "\<not> isGuest (example_env 64 64 1000 False)" by (simp add: example_env_def)
  have t: "presenceIntervals started_page > 0" "presenceIntervals new_page = 0"
    by (simp_all add: started_page_def new_page_def)
  have idle: "\<not> publish_due example_config (example_env 66 64 1200 False) (published_at 64 64 1000)"
    by (simp add: publish_due_def example_config_def example_env_def published_at_def)
  have due: "publish_due example_config (example_env 64 64 6000 False) (published_at 64 64 1000)"
    by (simp add: publish_due_def example_config_def example_env_def published_at_def)
  show ?thesis
    using g t idle due
      C2_publish_gate [of "example_env 64 64 1000 False" example_config example_profile online
        new_manager new_page]
      C2_publish_gate [of "example_env 66 64 1200 False" example_config example_profile online
        "published_at 64 64 1000" started_page]
      C2_publish_gate [of "example_env 64 64 6000 False" example_config example_profile online
        "published_at 64 64 1000" started_page]
    by simp
qed

text \<open>
  C2 as worded fails in two places. The start of a guest session publishes nothing. And the
  gate is not \<open>exceeds\<close>: a move of exactly the threshold, 4, after 200 ms is published,
  although the squared distance 16 does not exceed the squared threshold 16 and no heartbeat
  is due.
\<close>

theorem C2_as_worded_counterexample:
  "mutations (snd (start example_config example_profile (example_env 64 64 1000 True) online
      new_manager)) = []
   \<and> \<not> ((mutations (snd (publishPresence example_config example_profile
            (example_env 68 64 1200 False) online False (published_at 64 64 1000))) \<noteq> [])
       = ((pos_x (getPlayerPosition (example_env 68 64 1200 False))
              - lastPresenceX (published_at 64 64 1000))
            * (pos_x (getPlayerPosition (example_env 68 64 1200 False))
              - lastPresenceX (published_at 64 64 1000))
          + (pos_y (getPlayerPosition (example_env 68 64 1200 False))
              - lastPresenceY (published_at 64 64 1000))
            * (pos_y (getPlayerPosition (example_env 68 64 1200 False))
              - lastPresenceY (published_at 64 64 1000))
          > PRESENCE_MOVE_THRESHOLD_PX example_config * PRESENCE_MOVE_THRESHOLD_PX example_config
        \<or> date_now (example_env 68 64 1200 False) - lastPresenceSentAt (published_at 64 64 1000)
            \<ge> PRESENCE_STATIONARY_HEARTBEAT_MS example_config))"
  by (simp add: start_guest publishPresence_mutations publish_due_def example_config_def
      example_env_def published_at_def)

subsection \<open>Failed publishes\<close>

text \<open>
  C6. A rejection of the \<open>presence.update\<close> mutation never leaves \<open>publishPresence\<close> as an
  unhandled rejection: the \<open>catch\<close> handler logs it with \<open>console.warn\<close>, and that is all that
  happens beyond the sending. The manager after the call and the mutations sent do not
  depend on how the mutation settles. The polling goes on as after a successful publish:
  the next firing of the presence interval after a rejected publish sends a
  \<open>presence.update\<close> with the position of that time if and only if the player has moved by
  the threshold since the rejected publish or the heartbeat interval has passed since it,
  so a publish that was lost is made good by the next publish that is due, at the latest by
  the heartbeat. Over any sequence of calls and callbacks no rejection is left unhandled
  and the states and the mutations sent are the same whatever the store answered.
\<close>

theorem C6_publish_failure_swallowed:
  "unhandled_rejections (snd (publishPresence cfg profile env convex force m)) = []
   \<and> fst (publishPresence cfg profile env convex force m)
       = fst (publishPresence cfg profile env convex' force m)
   \<and> mutations (snd (publishPresence cfg profile env convex force m))
       = mutations (snd (publishPresence cfg profile env convex' force m))
   \<and> (convex (presence_update profile env) = Rejected err \<and> (force \<or> publish_due cfg env m) \<longrightarrow>
        snd (publishPresence cfg profile env convex force m)
          = [Mutate (presence_update profile env), ConsoleWarn ''Presence update failed:'' err])
   \<and> (convex (presence_update profile env) = Rejected err \<and> (force \<or> publish_due cfg env m)
        \<and> presenceIntervals page > 0 \<longrightarrow>
        mutations (snd (step cfg profile
            (fst (publishPresence cfg profile env convex force m), page)
            (PresenceTimerFired, env', store)))
          = (if (pos_x (getPlayerPosition env') - pos_x (getPlayerPosition env))
                  * (pos_x (getPlayerPosition env') - pos_x (getPlayerPosition env))
                + (pos_y (getPlayerPosition env') - pos_y (getPlayerPosition env))
                  * (pos_y (getPlayerPosition env') - pos_y (getPlayerPosition env))
                \<ge> PRESENCE_MOVE_THRESHOLD_PX cfg * PRESENCE_MOVE_THRESHOLD_PX cfg
              \<or> date_now env' - date_now env \<ge> PRESENCE_STATIONARY_HEARTBEAT_MS cfg
             then [presence_update profile env'] else []))
   \<and> unhandled_rejections (snd (run cfg profile session evs)) = []
   \<and> (same_calls evs evs' \<longrightarrow>
        fst (run cfg profile session evs) = fst (run cfg profile session evs')
        \<and> mutations (snd (run cfg profile session evs))
            = mutations (snd (run cfg profile session evs')))"
proof -
  have logged: "snd (publishPresence cfg profile env convex force m)
      = [Mutate (presence_update profile env), ConsoleWarn ''Presence update failed:'' err]"
    if "convex (presence_update profile env) = Rejected err" "force \<or> publish_due cfg env m"
    using that by (simp add: publishPresence_send promise_catch_def del: disj_not1)
  have healed: "mutations (snd (step cfg profile
            (fst (publishPresence cfg profile env convex force m), page)
            (PresenceTimerFired, env', store)))
          = (if (pos_x (getPlayerPosition env') - pos_x (getPlayerPosition env))
                  * (pos_x (getPlayerPosition env') - pos_x (getPlayerPosition env))
                + (pos_y (getPlayerPosition env') - pos_y (getPlayerPosition env))
                  * (pos_y (getPlayerPosition env') - pos_y (getPlayerPosition env))
                \<ge> PRESENCE_MOVE_THRESHOLD_PX cfg * PRESENCE_MOVE_THRESHOLD_PX cfg
              \<or> date_now env' - date_now env \<ge> PRESENCE_STATIONARY_HEARTBEAT_MS cfg
             then [presence_update profile env'] else [])"
    if sent: "force \<or> publish_due cfg env m" and live: "presenceIntervals page > 0"
  proof -
    have "mutations (snd (step cfg profile
            (fst (publishPresence cfg profile env convex force m), page)
            (PresenceTimerFired, env', store)))
        = (if publish_due cfg env' (fst (publishPresence cfg profile env convex force m))
           then [presence_update profile env'] else [])"
      unfolding presence_tick [OF live] snd_conv by (simp add: publishPresence_mutations)
    also have "publish_due cfg env' (fst (publishPresence cfg profile env convex force m))
        = due_since cfg env env'"
      using sent by (rule publish_due_after)
    finally show ?thesis by (simp only: due_since_def)
  qed
  have rest: "unhandled_rejections (snd (publishPresence cfg profile env convex force m)) = []
      \<and> fst (publishPresence cfg profile env convex force m)
          = fst (publishPresence cfg profile env convex' force m)
      \<and> mutations (snd (publishPresence cfg profile env convex force m))
          = mutations (snd (publishPresence cfg profile env convex' force m))
      \<and> unhandled_rejections (snd (run cfg profile session evs)) = []"
    by (simp add: publishPresence_unhandled publishPresence_state publishPresence_mutations
        run_unhandled del: disj_not1)
  from rest logged healed run_independent [of evs evs' cfg profile session]
  show ?thesis by blast
qed

text \<open>
  Witness of C6: the forced publish of a start while the store is unreachable logs one
  warning. The player stands still: the cycle 200 ms later sends nothing, the cycle 5000 ms
  after the rejected publish sends the position again. The mutations of a session are the
  same whether the store rejected the first publish or not.
\<close>

theorem C6_publish_failure_swallowed_witness:
  "offline (presence_update example_profile (example_env 64 64 1000 False))
      = Rejected ''network unavailable''
   \<and> snd (publishPresence example_config example_profile (example_env 64 64 1000 False) offline
        True new_manager)
       = [Mutate (presence_update example_profile (example_env 64 64 1000 False)),
          ConsoleWarn ''Presence update failed:'' ''network unavailable'']
   \<and> presenceIntervals started_page > 0
   \<and> mutations (snd (step example_config example_profile
        (fst (publishPresence example_config example_profile (example_env 64 64 1000 False)
           offline True new_manager), started_page)
        (PresenceTimerFired, example_env 64 64 1200 False, online))) = []
   \<and> mutations (snd (step example_config example_profile
        (fst (publishPresence example_config example_profile (example_env 64 64 1000 False)
           offline True new_manager), started_page)
        (PresenceTimerFired, example_env 64 64 6000 False, online)))
       = [presence_update example_profile (example_env 64 64 6000 False)]
   \<and> same_calls
        [(Start, example_env 64 64 1000 False, offline),
         (PresenceTimerFired, example_env 90 64 1200 False, online)]
        [(Start, example_env 64 64 1000 False, online),
         (PresenceTimerFired, example_env 90 64 1200 False, online)]
   \<and> mutations (snd (run example_config example_profile (new_manager, new_page)
        [(Start, example_env 64 64 1000 False, offline),
         (PresenceTimerFired, example_env 90 64 1200 False, online)]))
       = mutations (snd (run example_config example_profile (new_manager, new_page)
        [(Start, example_env 64 64 1000 False, online),
         (PresenceTimerFired, example_env 90 64 1200 False, online)]))"
proof -
  have off: "offline (presence_update example_profile (example_env 64 64 1000 False))
      = Rejected ''network unavailable''" by (simp add: offline_def)
  have live: "presenceIntervals started_page > 0" by (simp add: started_page_def)
  have same: "same_calls
        [(Start, example_env 64 64 1000 False, offline),
         (PresenceTimerFired, example_env 90 64 1200 False, online)]
        [(Start, example_env 64 64 1000 False, online),
         (PresenceTimerFired, example_env 90 64 1200 False, online)]"
    by (simp add: same_calls_def)
  have vals: "pos_x (getPlayerPosition (example_env x y t g)) = x"
    "pos_y (getPlayerPosition (example_env x y t g)) = y" "date_now (example_env x y t g) = t"
    "PRESENCE_MOVE_THRESHOLD_PX example_config = 4"
    "PRESENCE_STATIONARY_HEARTBEAT_MS example_config = 5000" for x y t g
    by (simp_all add: example_env_def example_config_def)
  have soon: "mutations (snd (step example_config example_profile
        (fst (publishPresence example_config example_profile (example_env 64 64 1000 False)
           offline True new_manager), started_page)
        (PresenceTimerFired, example_env 64 64 1200 False, online))) = []"
    using off live
      C6_publish_failure_swallowed [where cfg = example_config and profile = example_profile
        and env = "example_env 64 64 1000 False" and convex = offline and force = True
        and m = new_manager and err = "''network unavailable''" and page = started_page
        and env' = "example_env 64 64 1200 False" and store = online
        and convex' = offline]
    by (simp add: vals)
  have later: "mutations (snd (step example_config example_profile
        (fst (publishPresence example_config example_profile (example_env 64 64 1000 False)
           offline True new_manager), started_page)
        (PresenceTimerFired, example_env 64 64 6000 False, online)))
       = [presence_update example_profile (example_env 64 64 6000 False)]"
    using off live
      C6_publish_failure_swallowed [where cfg = example_config and profile = example_profile
        and env = "example_env 64 64 1000 False" and convex = offline and force = True
        and m = new_manager and err = "''network unavailable''" and page = started_page
        and env' = "example_env 64 64 6000 False" and store = online
        and convex' = offline]
    by (simp add: vals)
  have session: "snd (publishPresence example_config example_profile
        (example_env 64 64 1000 False) offline True new_manager)
       = [Mutate (presence_update example_profile (example_env 64 64 1000 False)),
          ConsoleWarn ''Presence update failed:'' ''network unavailable'']
     \<and> mutations (snd (run example_config example_profile (new_manager, new_page)
        [(Start, example_env 64 64 1000 False, offline),
         (PresenceTimerFired, example_env 90 64 1200 False, online)]))
       = mutations (snd (run example_config example_profile (new_manager, new_page)
        [(Start, example_env 64 64 1000 False, online),
         (PresenceTimerFired, example_env 90 64 1200 False, online)]))"
    using off same
      C6_publish_failure_swallowed [where cfg = example_config and profile = example_profile
        and env = "example_env 64 64 1000 False" and convex = offline and force = True
        and m = new_manager and err = "''network unavailable''"
        and session = "(new_manager, new_page)"
        and evs = "[(Start, example_env 64 64 1000 False, offline),
          (PresenceTimerFired, example_env 90 64 1200 False, online)]"
        and evs' = "[(Start, example_env 64 64 1000 False, online),
          (PresenceTimerFired, example_env 90 64 1200 False, online)]"]
    by simp
  from off live same soon later session show ?thesis by simp
qed

subsection \<open>Guest sessions\<close>

text \<open>
  C10. While \<open>isGuest()\<close> returns true, \<open>start\<close> only installs the subscription (no
  interval, no unload handler, no mutation) and \<open>stop\<close> sends no mutation. Over any
  life of a manager in which \<open>isGuest()\<close> is true at every call and callback, no mutation
  is ever sent, so neither \<open>presence.update\<close> nor \<open>presence.remove\<close>, and no interval or
  unload handler is ever installed, in the fields of the manager or in the page.
\<close>

theorem C10_guest_never_writes_presence:
  "(isGuest env \<longrightarrow>
      fst (start cfg profile env convex m) = m\<lparr>presenceUnsub := True\<rparr>
      \<and> snd (start cfg profile env convex m) =
          [ConsoleLog (start_log profile env), Subscribe (getCurrentMapName env)]
      \<and> mutations (snd (start cfg profile env convex m)) = []
      \<and> mutations (snd (stop profile env convex m)) = [])
   \<and> ((\<forall>occ \<in> set evs. isGuest (fst (snd occ))) \<longrightarrow>
        mutations (snd (run cfg profile (new_manager, new_page) evs)) = []
        \<and> presenceTimer (fst (fst (run cfg profile (new_manager, new_page) evs))) = None
        \<and> saveTimer (fst (fst (run cfg profile (new_manager, new_page) evs))) = None
        \<and> \<not> unloadHandler (fst (fst (run cfg profile (new_manager, new_page) evs)))
        \<and> presenceIntervals (snd (fst (run cfg profile (new_manager, new_page) evs))) = 0
        \<and> saveIntervals (snd (fst (run cfg profile (new_manager, new_page) evs))) = 0
        \<and> beforeunloadListeners (snd (fst (run cfg profile (new_manager, new_page) evs))) = 0
        \<and> pagehideListeners (snd (fst (run cfg profile (new_manager, new_page) evs))) = 0)"
proof -
  have calls: "fst (start cfg profile env convex m) = m\<lparr>presenceUnsub := True\<rparr>
      \<and> snd (start cfg profile env convex m) =
          [ConsoleLog (start_log profile env), Subscribe (getCurrentMapName env)]
      \<and> mutations (snd (start cfg profile env convex m)) = []
      \<and> mutations (snd (stop profile env convex m)) = []" if "isGuest env"
    using that by (simp add: start_guest stop_guest)
  have idle: "guest_idle (new_manager, new_page)"
    by (simp add: guest_idle_def new_manager_def new_page_def)
  have session: "mutations (snd (run cfg profile (new_manager, new_page) evs)) = []
        \<and> presenceTimer (fst (fst (run cfg profile (new_manager, new_page) evs))) = None
        \<and> saveTimer (fst (fst (run cfg profile (new_manager, new_page) evs))) = None
        \<and> \<not> unloadHandler (fst (fst (run cfg profile (new_manager, new_page) evs)))
        \<and> presenceIntervals (snd (fst (run cfg profile (new_manager, new_page) evs))) = 0
        \<and> saveIntervals (snd (fst (run cfg profile (new_manager, new_page) evs))) = 0
        \<and> beforeunloadListeners (snd (fst (run cfg profile (new_manager, new_page) evs))) = 0
        \<and> pagehideListeners (snd (fst (run cfg profile (new_manager, new_page) evs))) = 0"
    if "\<forall>occ \<in> set evs. isGuest (fst (snd occ))"
    using guest_run [OF idle that, of cfg profile] by (simp add: guest_idle_def)
  from calls session show ?thesis by blast
qed

text \<open>
  Witness of C10: a guest session that starts, has timers and the unload event attempted,
  receives a feed and stops, sends nothing.
\<close>

theorem C10_guest_never_writes_presence_witness:
  "isGuest (example_env 64 64 1000 True)
   \<and> mutations (snd (start example_config example_profile (example_env 64 64 1000 True) online
        new_manager)) = []
   \<and> list_all (\<lambda>occ. isGuest (fst (snd occ))) guest_session
   \<and> mutations (snd (run example_config example_profile (new_manager, new_page)
        guest_session)) = []
   \<and> presenceTimer (fst (fst (run example_config example_profile (new_manager, new_page)
        guest_session))) = None
   \<and> presenceIntervals (snd (fst (run example_config example_profile (new_manager, new_page)
        guest_session))) = 0"
proof -
  have g: "isGuest (example_env 64 64 1000 True)" by (simp add: example_env_def)
  have all: "\<forall>occ \<in> set guest_session. isGuest (fst (snd occ))"
    by (simp add: guest_session_def example_env_def)
  show ?thesis
    using g all
      C10_guest_never_writes_presence [of "example_env 64 64 1000 True" example_config
        example_profile online new_manager guest_session]
    by (simp add: list_all_iff)
qed

section \<open>The combat settings inputs: rounding and clamping\<close>

text \<open>
  C9. For a finite input value each of the four combat inputs stores, on
  \<open>mapData.combatSettings\<close>, the value rounded to the nearest integer and then clamped
  between the minimum and the maximum of its setting. Where each minimum is at most its
  maximum the stored value lies in that range, and where the bounds are whole numbers the
  stored value is a whole number. A value that is not finite leaves the map data, and so
  the stored setting, unchanged.
\<close>

theorem C9_combat_settings_rounded_and_clamped:
  "get_setting attackRangePx (combatRangeInput cfg (Finite v) (Some md))
     = Some (max (COMBAT_ATTACK_RANGE_MIN_PX cfg)
         (min (COMBAT_ATTACK_RANGE_MAX_PX cfg) (of_int \<lfloor>v + 1 / 2\<rfloor>)))
   \<and> get_setting playerAttackCooldownMs (combatCooldownInput cfg (Finite v) (Some md))
     = Some (max (COMBAT_PLAYER_ATTACK_COOLDOWN_MIN_MS cfg)
         (min (COMBAT_PLAYER_ATTACK_COOLDOWN_MAX_MS cfg) (of_int \<lfloor>v + 1 / 2\<rfloor>)))
   \<and> get_setting npcHitCooldownMs (combatNpcHitCdInput cfg (Finite v) (Some md))
     = Some (max (COMBAT_NPC_HIT_COOLDOWN_MIN_MS cfg)
         (min (COMBAT_NPC_HIT_COOLDOWN_MAX_MS cfg) (of_int \<lfloor>v + 1 / 2\<rfloor>)))
   \<and> get_setting damageVariancePct (combatVarianceInput cfg (Finite v) (Some md))
     = Some (max (COMBAT_DAMAGE_VARIANCE_MIN_PCT cfg)
         (min (COMBAT_DAMAGE_VARIANCE_MAX_PCT cfg) (of_int \<lfloor>v + 1 / 2\<rfloor>)))
   \<and> (well_configured cfg \<longrightarrow>
        in_range (get_setting attackRangePx (combatRangeInput cfg (Finite v) (Some md)))
          (COMBAT_ATTACK_RANGE_MIN_PX cfg) (COMBAT_ATTACK_RANGE_MAX_PX cfg)
        \<and> in_range (get_setting playerAttackCooldownMs (combatCooldownInput cfg (Finite v) (Some md)))
          (COMBAT_PLAYER_ATTACK_COOLDOWN_MIN_MS cfg) (COMBAT_PLAYER_ATTACK_COOLDOWN_MAX_MS cfg)
        \<and> in_range (get_setting npcHitCooldownMs (combatNpcHitCdInput cfg (Finite v) (Some md)))
          (COMBAT_NPC_HIT_COOLDOWN_MIN_MS cfg) (COMBAT_NPC_HIT_COOLDOWN_MAX_MS cfg)
        \<and> in_range (get_setting damageVariancePct (combatVarianceInput cfg (Finite v) (Some md)))
          (COMBAT_DAMAGE_VARIANCE_MIN_PCT cfg) (COMBAT_DAMAGE_VARIANCE_MAX_PCT cfg))
   \<and> (whole_bounds cfg \<longrightarrow>
        is_whole (get_setting attackRangePx (combatRangeInput cfg (Finite v) (Some md)))
        \<and> is_whole (get_setting playerAttackCooldownMs (combatCooldownInput cfg (Finite v) (Some md)))
        \<and> is_whole (get_setting npcHitCooldownMs (combatNpcHitCdInput cfg (Finite v) (Some md)))
        \<and> is_whole (get_setting damageVariancePct (combatVarianceInput cfg (Finite v) (Some md))))
   \<and> (\<not> Number_isFinite n \<longrightarrow>
        combatRangeInput cfg n mapData = mapData \<and> combatCooldownInput cfg n mapData = mapData
        \<and> combatNpcHitCdInput cfg n mapData = mapData
        \<and> combatVarianceInput cfg n mapData = mapData)"
proof -
  have stored:
    "get_setting attackRangePx (combatRangeInput cfg (Finite v) (Some md))
       = Some (max (COMBAT_ATTACK_RANGE_MIN_PX cfg)
           (min (COMBAT_ATTACK_RANGE_MAX_PX cfg) (of_int \<lfloor>v + 1 / 2\<rfloor>)))"
    "get_setting playerAttackCooldownMs (combatCooldownInput cfg (Finite v) (Some md))
       = Some (max (COMBAT_PLAYER_ATTACK_COOLDOWN_MIN_MS cfg)
           (min (COMBAT_PLAYER_ATTACK_COOLDOWN_MAX_MS cfg) (of_int \<lfloor>v + 1 / 2\<rfloor>)))"
    "get_setting npcHitCooldownMs (combatNpcHitCdInput cfg (Finite v) (Some md))
       = Some (max (COMBAT_NPC_HIT_COOLDOWN_MIN_MS cfg)
           (min (COMBAT_NPC_HIT_COOLDOWN_MAX_MS cfg) (of_int \<lfloor>v + 1 / 2\<rfloor>)))"
    "get_setting damageVariancePct (combatVarianceInput cfg (Finite v) (Some md))
       = Some (max (COMBAT_DAMAGE_VARIANCE_MIN_PCT cfg)
           (min (COMBAT_DAMAGE_VARIANCE_MAX_PCT cfg) (of_int \<lfloor>v + 1 / 2\<rfloor>)))"
    unfolding combatRangeInput_finite combatCooldownInput_finite combatNpcHitCdInput_finite
      combatVarianceInput_finite
    by (simp_all add: Math_round_def)
  have ranges: "in_range (get_setting attackRangePx (combatRangeInput cfg (Finite v) (Some md)))
          (COMBAT_ATTACK_RANGE_MIN_PX cfg) (COMBAT_ATTACK_RANGE_MAX_PX cfg)
        \<and> in_range (get_setting playerAttackCooldownMs (combatCooldownInput cfg (Finite v) (Some md)))
          (COMBAT_PLAYER_ATTACK_COOLDOWN_MIN_MS cfg) (COMBAT_PLAYER_ATTACK_COOLDOWN_MAX_MS cfg)
        \<and> in_range (get_setting npcHitCooldownMs (combatNpcHitCdInput cfg (Finite v) (Some md)))
          (COMBAT_NPC_HIT_COOLDOWN_MIN_MS cfg) (COMBAT_NPC_HIT_COOLDOWN_MAX_MS cfg)
        \<and> in_range (get_setting damageVariancePct (combatVarianceInput cfg (Finite v) (Some md)))
          (COMBAT_DAMAGE_VARIANCE_MIN_PCT cfg) (COMBAT_DAMAGE_VARIANCE_MAX_PCT cfg)"
    if "well_configured cfg"
    using that
    unfolding combatRangeInput_finite combatCooldownInput_finite combatNpcHitCdInput_finite
      combatVarianceInput_finite well_configured_def
    by (intro conjI clamp_within) simp_all
  have wholes: "is_whole (get_setting attackRangePx (combatRangeInput cfg (Finite v) (Some md)))
        \<and> is_whole (get_setting playerAttackCooldownMs (combatCooldownInput cfg (Finite v) (Some md)))
        \<and> is_whole (get_setting npcHitCooldownMs (combatNpcHitCdInput cfg (Finite v) (Some md)))
        \<and> is_whole (get_setting damageVariancePct (combatVarianceInput cfg (Finite v) (Some md)))"
    if "whole_bounds cfg"
    using that
    unfolding combatRangeInput_finite combatCooldownInput_finite combatNpcHitCdInput_finite
      combatVarianceInput_finite whole_bounds_def
    by (intro conjI clamp_is_whole) simp_all
  from stored ranges wholes inputs_not_finite [of n cfg mapData] show ?thesis by blast
qed

text \<open>
  Witness of C9: with an attack range of 16 to 256, the input 300.4 is stored as 256 and
  63.5 as 64; a variance of -7 is stored as 0; NaN changes nothing.
\<close>

theorem C9_combat_settings_rounded_and_clamped_witness:
  "well_configured example_combat_config \<and> whole_bounds example_combat_config
   \<and> get_setting attackRangePx (combatRangeInput example_combat_config (Finite 300.4)
        (Some example_map)) = Some 256
   \<and> get_setting attackRangePx (combatRangeInput example_combat_config (Finite 63.5)
        (Some example_map)) = Some 64
   \<and> get_setting damageVariancePct (combatVarianceInput example_combat_config (Finite (- 7))
        (Some example_map)) = Some 0
   \<and> \<not> Number_isFinite NaN
   \<and> combatNpcHitCdInput example_combat_config NaN (Some example_map) = Some example_map"
proof -
  have cfg: "well_configured example_combat_config" "whole_bounds example_combat_config"
    by (simp_all add: well_configured_def whole_bounds_def is_whole_def example_combat_config_def)
  have fl: "\<lfloor>300.4 + 1 / 2 :: real\<rfloor> = 300" "\<lfloor>63.5 + 1 / 2 :: real\<rfloor> = 64"
    "\<lfloor>- 7 + 1 / 2 :: real\<rfloor> = - 7"
    by (simp_all add: floor_eq_iff)
  show ?thesis
    using cfg fl
      C9_combat_settings_rounded_and_clamped [of example_combat_config "300.4" example_map NaN
        "Some example_map"]
      C9_combat_settings_rounded_and_clamped [of example_combat_config "63.5" example_map NaN
        "Some example_map"]
      C9_combat_settings_rounded_and_clamped [of example_combat_config "- 7" example_map NaN
        "Some example_map"]
    by (simp add: example_combat_config_def)
qed

section \<open>The combat resolution: retried requests\<close>

text \<open>
  C7. After an attack on an NPC has succeeded at time \<open>now\<close>, every further resolution
  against that NPC while less than \<open>npcHitCooldownMs\<close> has passed since \<open>now\<close> is rejected
  and leaves the NPC and the attacker as the first resolution left them: over the request
  and all its retries the HP is reduced once, by the damage of the first resolution, the
  experience is granted at most once and at most one loot entity is spawned.
\<close>

theorem C7_no_double_damage:
  assumes "resolveAttack rules distance now roll w = (result, w1)" and "success result"
    and "\<forall>again \<in> set later. fst (snd again) - now < rule_npcHitCooldownMs rules"
  shows "snd (retries rules later w1) = w1
     \<and> (\<forall>retried \<in> set (fst (retries rules later w1)). \<not> success retried)
     \<and> currentHp (npc (snd (retries rules later w1))) = currentHp (npc w) - the (damage result)
     \<and> playerXp (snd (retries rules later w1)) = playerXp w + xpGained result
     \<and> (xpGained result = 0 \<or> xpGained result = rule_xpReward rules)
     \<and> lootDrops (snd (retries rules later w1)) \<le> lootDrops w + 1"
proof -
  from resolveAttack_hit [OF assms(1,2)]
  have hit: "lastHitAt (npc w1) = Some now"
    "currentHp (npc w1) = currentHp (npc w) - the (damage result)"
    "playerXp w1 = playerXp w + xpGained result"
    "xpGained result = 0 \<or> xpGained result = rule_xpReward rules"
    "lootDrops w1 \<le> lootDrops w + 1" by simp_all
  from retries_in_cooldown [OF hit(1) assms(3)]
  have again: "snd (retries rules later w1) = w1"
    "\<forall>retried \<in> set (fst (retries rules later w1)). \<not> success retried" by simp_all
  from hit again show ?thesis by simp
qed

text \<open>
  Witness of C7: an NPC with 5 HP is defeated at 1000 by a hit of 11 for 25 experience
  points; the same request resolved again at 1100 and at 1499, within the cooldown of 500,
  grants nothing more and deducts nothing more.
\<close>

theorem C7_no_double_damage_witness:
  "resolveAttack example_rules 10 1000 (1 / 2) (example_world 5)
      = (example_defeat, example_defeated_world)
   \<and> success example_defeat
   \<and> list_all (\<lambda>again. fst (snd again) - 1000 < rule_npcHitCooldownMs example_rules)
        [(10, 1100, 1), (12, 1499, - 1)]
   \<and> snd (retries example_rules [(10, 1100, 1), (12, 1499, - 1)] example_defeated_world)
      = example_defeated_world
   \<and> playerXp (snd (retries example_rules [(10, 1100, 1), (12, 1499, - 1)]
        example_defeated_world)) = 25
   \<and> currentHp (npc (snd (retries example_rules [(10, 1100, 1), (12, 1499, - 1)]
        example_defeated_world))) = - 6"
proof -
  have first: "resolveAttack example_rules 10 1000 (1 / 2) (example_world 5)
      = (example_defeat, example_defeated_world)"
    by (simp add: resolveAttack_def example_rules_def example_world_def example_defeat_def
        example_defeated_world_def Let_def)
  have ok: "success example_defeat" by (simp add: example_defeat_def)
  have window: "\<forall>again \<in> set [(10, 1100, 1), (12, 1499, - 1 :: real)].
      fst (snd again) - 1000 < rule_npcHitCooldownMs example_rules"
    by (simp add: example_rules_def)
  from C7_no_double_damage [OF first ok window] first ok window
  show ?thesis by (simp add: example_defeated_world_def example_world_def example_defeat_def)
qed


end
